theory Spec2Isabelle
  imports Complex_Main "HOL-Library.Char_ord" "HOL-Library.List_Lexorder" "HOL-Library.Sublist"
begin

section \<open>Strings and characters\<close>

text \<open>
  A JavaScript string is modelled as a \<^typ>\<open>string\<close>: the model covers the strings whose
  code units are below 256. Character classes are predicates on \<^typ>\<open>char\<close>; the part of
  a class above U+00FF has no counterpart here.
\<close>

definition NL :: char where "NL = CHR 0x0A"
definition CR :: char where "CR = CHR 0x0D"
definition TAB :: char where "TAB = CHR 0x09"
definition FF :: char where "FF = CHR 0x0C"
definition VT :: char where "VT = CHR 0x0B"
definition NBSP :: char where "NBSP = CHR 0xA0"
definition DQUOTE :: char where "DQUOTE = CHR 0x22"
definition SQUOTE :: char where "SQUOTE = CHR 0x27"
definition BSLASH :: char where "BSLASH = CHR 0x5C"
definition BACKTICK :: char where "BACKTICK = CHR 0x60"

definition is_digit :: "char \<Rightarrow> bool" where
  "is_digit c = (c \<in> set ''0123456789'')"

definition is_alnum :: "char \<Rightarrow> bool" where
  "is_alnum c =
     (c \<in> set ''0123456789ABCDEFGHIJKLMNOPQRSTUVWXYZabcdefghijklmnopqrstuvwxyz'')"

definition is_word_char :: "char \<Rightarrow> bool" where
  "is_word_char c = (is_alnum c \<or> c = CHR ''_'')"

definition is_space :: "char \<Rightarrow> bool" where
  "is_space c = (c \<in> set [TAB, NL, VT, FF, CR, CHR '' '', NBSP])"

definition is_line_terminator :: "char \<Rightarrow> bool" where
  "is_line_terminator c = (c = NL \<or> c = CR)"

definition is_high :: "char \<Rightarrow> bool" where
  "is_high c = (CHR 0xC0 \<le> c)"

definition toLowerCaseChar :: "char \<Rightarrow> char" where
  "toLowerCaseChar c =
     (let n = (of_char c :: nat)
      in if (65 \<le> n \<and> n \<le> 90) \<or> (192 \<le> n \<and> n \<le> 222 \<and> n \<noteq> 215)
         then char_of (n + 32) else c)"

definition toLowerCase :: "string \<Rightarrow> string" where
  "toLowerCase s = map toLowerCaseChar s"

definition substring :: "string \<Rightarrow> nat \<Rightarrow> string" where
  "substring s n = drop n s"

fun indexOf_from :: "string \<Rightarrow> string \<Rightarrow> nat \<Rightarrow> nat option" where
  "indexOf_from [] pat i = (if pat = [] then Some i else None)"
| "indexOf_from (c # cs) pat i =
     (if prefix pat (c # cs) then Some i else indexOf_from cs pat (Suc i))"

definition indexOf :: "string \<Rightarrow> string \<Rightarrow> nat option" where
  "indexOf s pat = indexOf_from s pat 0"

definition trim :: "string \<Rightarrow> string" where
  "trim s = rev (dropWhile is_space (rev (dropWhile is_space s)))"

fun split_char_acc :: "char \<Rightarrow> string \<Rightarrow> string \<Rightarrow> string list" where
  "split_char_acc d acc [] = [rev acc]"
| "split_char_acc d acc (c # cs) =
     (if c = d then rev acc # split_char_acc d [] cs else split_char_acc d (c # acc) cs)"

definition split_char :: "char \<Rightarrow> string \<Rightarrow> string list" where
  "split_char d s = split_char_acc d [] s"

function digits_of :: "nat \<Rightarrow> string" where
  "digits_of n =
     (if n < 10 then [''0123456789'' ! n]
      else digits_of (n div 10) @ [''0123456789'' ! (n mod 10)])"
  by pat_completeness auto
termination
  by (relation "measure id") auto

section \<open>Regular expressions\<close>

text \<open>
  The source is written with JavaScript regular expressions. They are embedded as a
  datatype with a backtracking matcher that follows the ECMAScript pattern semantics:
  alternatives are tried left to right, quantifiers are greedy or lazy, a quantified
  group forgets its captures at each iteration, an iteration of an open-ended quantifier
  that consumes nothing is rejected, and lookaheads keep captures only when positive.
\<close>

datatype regex =
    Eps
  | Chr "char \<Rightarrow> bool"
  | Seq regex regex
  | Alt regex regex
  | Rep bool nat "nat option" regex
  | Grp nat regex
  | Bref nat
  | Look bool regex
  | Bol bool
  | Eol bool
  | Wordb

record mstate =
  prev :: "char option"
  rest :: string
  caps :: "(nat \<times> string) list"

primrec rsize :: "regex \<Rightarrow> nat" where
  "rsize Eps = 1"
| "rsize (Chr P) = 1"
| "rsize (Seq a b) = Suc (rsize a + rsize b)"
| "rsize (Alt a b) = Suc (rsize a + rsize b)"
| "rsize (Rep g mn mx a) = Suc (rsize a)"
| "rsize (Grp n a) = Suc (rsize a)"
| "rsize (Bref n) = 1"
| "rsize (Look b a) = Suc (rsize a)"
| "rsize (Bol m) = 1"
| "rsize (Eol m) = 1"
| "rsize Wordb = 1"

primrec rmin :: "regex \<Rightarrow> nat" where
  "rmin Eps = 0"
| "rmin (Chr P) = 0"
| "rmin (Seq a b) = 0"
| "rmin (Alt a b) = 0"
| "rmin (Rep g mn mx a) = mn"
| "rmin (Grp n a) = 0"
| "rmin (Bref n) = 0"
| "rmin (Look b a) = 0"
| "rmin (Bol m) = 0"
| "rmin (Eol m) = 0"
| "rmin Wordb = 0"

primrec groups_of :: "regex \<Rightarrow> nat list" where
  "groups_of Eps = []"
| "groups_of (Chr P) = []"
| "groups_of (Seq a b) = groups_of a @ groups_of b"
| "groups_of (Alt a b) = groups_of a @ groups_of b"
| "groups_of (Rep g mn mx a) = groups_of a"
| "groups_of (Grp n a) = n # groups_of a"
| "groups_of (Bref n) = []"
| "groups_of (Look b a) = groups_of a"
| "groups_of (Bol m) = []"
| "groups_of (Eol m) = []"
| "groups_of Wordb = []"

definition dec_max :: "nat option \<Rightarrow> nat option" where
  "dec_max mx = (case mx of None \<Rightarrow> None | Some n \<Rightarrow> Some (n - 1))"

definition clear_groups :: "nat list \<Rightarrow> mstate \<Rightarrow> mstate" where
  "clear_groups gs s = s\<lparr>caps := filter (\<lambda>(n, _). n \<notin> set gs) (caps s)\<rparr>"

text \<open>
  \<open>rmatch r s k\<close> matches \<open>r\<close> at the position \<open>s\<close> (the character before it, the text
  after it, the captures so far) and hands every way of matching, in the order of the
  ECMAScript semantics, to the continuation \<open>k\<close> until one succeeds.
\<close>

function (sequential) rmatch ::
  "regex \<Rightarrow> mstate \<Rightarrow> (mstate \<Rightarrow> mstate option) \<Rightarrow> mstate option" where
  "rmatch Eps s k = k s"
| "rmatch (Chr P) s k =
     (case rest s of
        [] \<Rightarrow> None
      | c # cs \<Rightarrow> if P c then k (s\<lparr>prev := Some c, rest := cs\<rparr>) else None)"
| "rmatch (Seq a b) s k = rmatch a s (\<lambda>s'. rmatch b s' k)"
| "rmatch (Alt a b) s k =
     (case rmatch a s k of Some r \<Rightarrow> Some r | None \<Rightarrow> rmatch b s k)"
| "rmatch (Grp n a) s k =
     rmatch a s
       (\<lambda>s'. k (s'\<lparr>caps := (n, take (length (rest s) - length (rest s')) (rest s)) # caps s'\<rparr>))"
| "rmatch (Bref n) s k =
     (case map_of (caps s) n of
        None \<Rightarrow> k s
      | Some t \<Rightarrow>
          if t = [] then k s
          else if prefix t (rest s)
          then k (s\<lparr>prev := Some (last t), rest := drop (length t) (rest s)\<rparr>)
          else None)"
| "rmatch (Look pos a) s k =
     (case rmatch a s Some of
        Some s' \<Rightarrow> if pos then k (s\<lparr>caps := caps s'\<rparr>) else None
      | None \<Rightarrow> if pos then None else k s)"
| "rmatch (Bol ml) s k =
     (case prev s of
        None \<Rightarrow> k s
      | Some c \<Rightarrow> if ml \<and> is_line_terminator c then k s else None)"
| "rmatch (Eol ml) s k =
     (case rest s of
        [] \<Rightarrow> k s
      | c # cs \<Rightarrow> if ml \<and> is_line_terminator c then k s else None)"
| "rmatch Wordb s k =
     (if (case prev s of None \<Rightarrow> False | Some c \<Rightarrow> is_word_char c)
         \<noteq> (case rest s of [] \<Rightarrow> False | c # cs \<Rightarrow> is_word_char c)
      then k s else None)"
| "rmatch (Rep g mn mx a) s k =
     (if mx = Some 0 then k s
      else if 0 < mn then
        rmatch a (clear_groups (groups_of a) s)
          (\<lambda>s'. rmatch (Rep g (mn - 1) (dec_max mx) a) s' k)
      else if g then
        (case rmatch a (clear_groups (groups_of a) s)
                (\<lambda>s'. if length (rest s') < length (rest s)
                      then rmatch (Rep g 0 (dec_max mx) a) s' k else None) of
           Some r \<Rightarrow> Some r
         | None \<Rightarrow> k s)
      else
        (case k s of
           Some r \<Rightarrow> Some r
         | None \<Rightarrow>
             rmatch a (clear_groups (groups_of a) s)
               (\<lambda>s'. if length (rest s') < length (rest s)
                     then rmatch (Rep g 0 (dec_max mx) a) s' k else None)))"
  by pat_completeness auto
termination
  by (relation "inv_image (less_than <*lex*> less_than <*lex*> less_than)
                  (\<lambda>(r, s, k). (rsize r, rmin r, length (rest s)))")
     (auto simp: clear_groups_def)

text \<open>
  The result of \<open>RegExp.prototype.exec\<close>: the index of the match, \<open>capture[0]\<close> and
  the groups that took part in the match (a group that did not is \<open>undefined\<close>).
\<close>

record capture =
  cindex :: nat
  cfull :: string
  cgroups :: "(nat \<times> string) list"

definition cap :: "capture \<Rightarrow> nat \<Rightarrow> string option" where
  "cap c i = (if i = 0 then Some (cfull c) else map_of (cgroups c) i)"

text \<open>\<open>exec\<close> without the \<open>g\<close> flag tries every start index from the left.\<close>

fun exec_from :: "regex \<Rightarrow> char option \<Rightarrow> nat \<Rightarrow> string \<Rightarrow> capture option" where
  "exec_from r p i [] =
     (case rmatch r \<lparr>prev = p, rest = [], caps = []\<rparr> Some of
        Some s' \<Rightarrow> Some \<lparr>cindex = i, cfull = [], cgroups = caps s'\<rparr>
      | None \<Rightarrow> None)"
| "exec_from r p i (c # cs) =
     (case rmatch r \<lparr>prev = p, rest = c # cs, caps = []\<rparr> Some of
        Some s' \<Rightarrow>
          Some \<lparr>cindex = i, cfull = take (Suc (length cs) - length (rest s')) (c # cs),
                cgroups = caps s'\<rparr>
      | None \<Rightarrow> exec_from r (Some c) (Suc i) cs)"

definition exec :: "regex \<Rightarrow> string \<Rightarrow> capture option" where
  "exec r s = exec_from r None 0 s"

definition test :: "regex \<Rightarrow> string \<Rightarrow> bool" where
  "test r s = (exec r s \<noteq> None)"

text \<open>
  \<open>String.prototype.replace\<close> and \<open>match\<close> with a \<open>g\<close> regex: the matches from left to
  right, the search resuming after each match, and one character later after an empty
  match.
\<close>

function matches_from :: "regex \<Rightarrow> char option \<Rightarrow> string \<Rightarrow> (string \<times> capture) list \<times> string" where
  "matches_from r p s =
     (case exec_from r p 0 s of
        None \<Rightarrow> ([], s)
      | Some c \<Rightarrow>
          (let pre = take (cindex c) s;
               after = drop (cindex c + length (cfull c)) s
           in if cfull c = [] then
                (case after of
                   [] \<Rightarrow> ([(pre, c)], [])
                 | x # xs \<Rightarrow>
                     (case matches_from r (Some x) xs of
                        ([], t) \<Rightarrow> ([(pre, c)], x # t)
                      | ((q, d) # ms, t) \<Rightarrow> ((pre, c) # (x # q, d) # ms, t)))
              else if length after < length s then
                (case matches_from r (Some (last (cfull c))) after of
                   (ms, t) \<Rightarrow> ((pre, c) # ms, t))
              else ([(pre, c)], after)))"
  by pat_completeness auto
termination
proof (relation "measure (\<lambda>(r, p, s). length s)", goal_cases)
  case 1
  show ?case by simp
next
  case (2 r p s c pre after x xs)
  then have "length (x # xs) = length (drop (cindex c + length (cfull c)) s)"
    by simp
  then show ?case by simp
next
  case (3 r p s c pre after)
  then show ?case by simp
qed

definition replace_g :: "regex \<Rightarrow> (capture \<Rightarrow> string) \<Rightarrow> string \<Rightarrow> string" where
  "replace_g r f s =
     (case matches_from r None s of
        (ms, t) \<Rightarrow> concat (map (\<lambda>(pre, c). pre @ f c) ms) @ t)"

definition match_g :: "regex \<Rightarrow> string \<Rightarrow> string list option" where
  "match_g r s =
     (case matches_from r None s of
        ([], t) \<Rightarrow> None
      | (ms, t) \<Rightarrow> Some (map (\<lambda>(pre, c). cfull c) ms))"

text \<open>\<open>replace\<close> with a regex without the \<open>g\<close> flag replaces the first match only.\<close>

definition replace1 :: "regex \<Rightarrow> (capture \<Rightarrow> string) \<Rightarrow> string \<Rightarrow> string" where
  "replace1 r f s =
     (case exec r s of
        None \<Rightarrow> s
      | Some c \<Rightarrow> take (cindex c) s @ f c @ drop (cindex c + length (cfull c)) s)"

subsection \<open>Notation for patterns\<close>

definition one :: "char \<Rightarrow> regex" where "one c = Chr (\<lambda>x. x = c)"
definition oneof :: "string \<Rightarrow> regex" where "oneof cs = Chr (\<lambda>x. x \<in> set cs)"
definition noneof :: "string \<Rightarrow> regex" where "noneof cs = Chr (\<lambda>x. x \<notin> set cs)"
definition anychar :: regex where "anychar = Chr (\<lambda>x. True)"
definition dot :: regex where "dot = Chr (\<lambda>x. \<not> is_line_terminator x)"
definition space :: regex where "space = Chr is_space"
definition nonspace :: regex where "nonspace = Chr (\<lambda>x. \<not> is_space x)"
definition digit :: regex where "digit = Chr is_digit"
definition wordchar :: regex where "wordchar = Chr is_word_char"
definition star :: "regex \<Rightarrow> regex" where "star r = Rep True 0 None r"
definition plus :: "regex \<Rightarrow> regex" where "plus r = Rep True 1 None r"
definition opt :: "regex \<Rightarrow> regex" where "opt r = Rep True 0 (Some 1) r"
definition lstar :: "regex \<Rightarrow> regex" where "lstar r = Rep False 0 None r"
definition lplus :: "regex \<Rightarrow> regex" where "lplus r = Rep False 1 None r"
definition atleast :: "nat \<Rightarrow> regex \<Rightarrow> regex" where "atleast n r = Rep True n None r"

fun seqs :: "regex list \<Rightarrow> regex" where
  "seqs [] = Eps"
| "seqs [r] = r"
| "seqs (r # rs) = Seq r (seqs rs)"

fun alts :: "regex list \<Rightarrow> regex" where
  "alts [] = Eps"
| "alts [r] = r"
| "alts (r # rs) = Alt r (alts rs)"

definition lit :: "string \<Rightarrow> regex" where
  "lit s = seqs (map one s)"

section \<open>Preprocessing, sanitizing and tag emission\<close>

definition CR_NEWLINE_R :: regex where
  "CR_NEWLINE_R = Seq (one CR) (opt (one NL))"

definition TAB_R :: regex where
  "TAB_R = one TAB"

definition FORMFEED_R :: regex where
  "FORMFEED_R = one FF"

definition preprocess :: "string \<Rightarrow> string" where
  "preprocess source =
     replace_g TAB_R (\<lambda>c. ''    '')
       (replace_g FORMFEED_R (\<lambda>c. '''')
          (replace_g CR_NEWLINE_R (\<lambda>c. [NL]) source))"

subsection \<open>sanitizeText\<close>

definition SANITIZE_TEXT_R :: regex where
  "SANITIZE_TEXT_R = oneof [CHR ''<'', CHR ''>'', CHR ''&'', DQUOTE, SQUOTE]"

definition SANITIZE_TEXT_CODES :: "(string \<times> string) list" where
  "SANITIZE_TEXT_CODES =
     [(''<'', ''&lt;''),
      (''>'', ''&gt;''),
      (''&'', ''&amp;''),
      ([DQUOTE], ''&quot;''),
      ([SQUOTE], ''&#x27;''),
      (''/'', ''&#x2F;''),
      ([BACKTICK], ''&#96;'')]"

text \<open>
  The replacement function looks the matched text up in the table; a key that is not
  there would give \<open>undefined\<close>, which \<open>replace\<close> writes as that word.
\<close>

definition sanitizeText :: "string \<Rightarrow> string" where
  "sanitizeText text' =
     replace_g SANITIZE_TEXT_R
       (\<lambda>c. case map_of SANITIZE_TEXT_CODES (cfull c) of
               Some code \<Rightarrow> code
             | None \<Rightarrow> ''undefined'')
       text'"

subsection \<open>sanitizeUrl\<close>

text \<open>
  Modelled from the spec: \<open>decodeURIComponent\<close> is a built-in of the language, not code of
  the repository. The model follows the Decode operation of ECMAScript on strings of
  code units below 256 and returns the code points of the result; \<open>None\<close> is the
  \<open>URIError\<close>.
\<close>

definition hexval :: "char \<Rightarrow> nat option" where
  "hexval c =
     (let n = (of_char c :: nat)
      in if 48 \<le> n \<and> n \<le> 57 then Some (n - 48)
         else if 65 \<le> n \<and> n \<le> 70 then Some (n - 55)
         else if 97 \<le> n \<and> n \<le> 102 then Some (n - 87)
         else None)"

definition leading_ones :: "nat \<Rightarrow> nat" where
  "leading_ones b =
     (if b < 128 then 0 else if b < 192 then 1 else if b < 224 then 2
      else if b < 240 then 3 else if b < 248 then 4 else 5)"

definition is_continuation :: "nat \<Rightarrow> bool" where
  "is_continuation b = (128 \<le> b \<and> b < 192)"

definition utf8_value :: "nat list \<Rightarrow> nat option" where
  "utf8_value octets =
     (case octets of
        [a, b] \<Rightarrow>
          (let v = (a - 192) * 64 + (b - 128)
           in if is_continuation b \<and> 128 \<le> v then Some v else None)
      | [a, b, c] \<Rightarrow>
          (let v = (a - 224) * 4096 + (b - 128) * 64 + (c - 128)
           in if is_continuation b \<and> is_continuation c \<and> 2048 \<le> v
                 \<and> \<not> (55296 \<le> v \<and> v \<le> 57343)
              then Some v else None)
      | [a, b, c, d] \<Rightarrow>
          (let v = (a - 240) * 262144 + (b - 128) * 4096 + (c - 128) * 64 + (d - 128)
           in if is_continuation b \<and> is_continuation c \<and> is_continuation d
                 \<and> 65536 \<le> v \<and> v \<le> 1114111
              then Some v else None)
      | _ \<Rightarrow> None)"

datatype decode_mode = Plain | Hex1 | Hex2 nat

fun decode_from :: "nat list \<Rightarrow> nat \<Rightarrow> decode_mode \<Rightarrow> string \<Rightarrow> nat list option" where
  "decode_from octets pending Plain [] = (if pending = 0 then Some [] else None)"
| "decode_from octets pending Plain (c # cs) =
     (if c = CHR ''%'' then decode_from octets pending Hex1 cs
      else if pending = 0 then map_option ((#) (of_char c)) (decode_from [] 0 Plain cs)
      else None)"
| "decode_from octets pending Hex1 [] = None"
| "decode_from octets pending Hex1 (c # cs) =
     (case hexval c of
        None \<Rightarrow> None
      | Some h \<Rightarrow> decode_from octets pending (Hex2 h) cs)"
| "decode_from octets pending (Hex2 h) [] = None"
| "decode_from octets pending (Hex2 h) (c # cs) =
     (case hexval c of
        None \<Rightarrow> None
      | Some l \<Rightarrow>
          (let b = 16 * h + l
           in if pending = 0 then
                (if b < 128 then map_option ((#) b) (decode_from [] 0 Plain cs)
                 else if leading_ones b = 1 \<or> 4 < leading_ones b then None
                 else decode_from [b] (leading_ones b - 1) Plain cs)
              else if pending = 1 then
                (case utf8_value (octets @ [b]) of
                   None \<Rightarrow> None
                 | Some v \<Rightarrow> map_option ((#) v) (decode_from [] 0 Plain cs))
              else decode_from (octets @ [b]) (pending - 1) Plain cs))"

definition decodeURIComponent :: "string \<Rightarrow> nat list option" where
  "decodeURIComponent s = decode_from [] 0 Plain s"

text \<open>
  \<open>.replace(/[^A-Za-z0-9/:]/g, '').toLowerCase()\<close> on the decoded text: the characters
  that stay are ASCII, so the result is a \<^typ>\<open>string\<close> again.
\<close>

definition prot_char :: "nat \<Rightarrow> bool" where
  "prot_char n = (n < 128 \<and> (is_alnum (char_of n) \<or> char_of n = CHR ''/'' \<or> char_of n = CHR '':''))"

definition prot_of :: "nat list \<Rightarrow> string" where
  "prot_of decoded = toLowerCase (map char_of (filter prot_char decoded))"

definition sanitizeUrlWith :: "(string \<Rightarrow> nat list option) \<Rightarrow> string option \<Rightarrow> string option" where
  "sanitizeUrlWith decode url =
     (case url of
        None \<Rightarrow> None
      | Some u \<Rightarrow>
          (case decode u of
             None \<Rightarrow> None
           | Some decoded \<Rightarrow>
               (let prot = prot_of decoded
                in if indexOf prot ''javascript:'' = Some 0
                      \<or> indexOf prot ''vbscript:'' = Some 0
                      \<or> indexOf prot ''data:'' = Some 0
                   then None
                   else Some u)))"

definition sanitizeUrl :: "string option \<Rightarrow> string option" where
  "sanitizeUrl url = sanitizeUrlWith decodeURIComponent url"

subsection \<open>unescapeUrl\<close>

definition UNESCAPE_URL_R :: regex where
  "UNESCAPE_URL_R = Seq (one BSLASH) (Grp 1 (Chr (\<lambda>x. \<not> is_alnum x \<and> \<not> is_space x)))"

definition dollar :: "nat \<Rightarrow> capture \<Rightarrow> string" where
  "dollar n c = (case cap c n of Some g \<Rightarrow> g | None \<Rightarrow> [])"

definition unescapeUrl :: "string \<Rightarrow> string" where
  "unescapeUrl rawUrlString = replace_g UNESCAPE_URL_R (dollar 1) rawUrlString"

subsection \<open>htmlTag\<close>

text \<open>An attribute value is a string, a number, or \<open>null\<close>/\<open>undefined\<close>.\<close>

datatype attr = AStr string | ANum nat | ANone

fun truthy_attr :: "attr \<Rightarrow> bool" where
  "truthy_attr (AStr s) = (s \<noteq> [])"
| "truthy_attr (ANum n) = (n \<noteq> 0)"
| "truthy_attr ANone = False"

text \<open>
  \<open>String(attribute)\<close>: a number is written in decimal (as the source does for a number
  below \<open>10\<^sup>2\<^sup>1\<close>; from there on \<open>String\<close> uses an exponent).
\<close>

fun String_attr :: "attr \<Rightarrow> string" where
  "String_attr (AStr s) = s"
| "String_attr (ANum n) = digits_of n"
| "String_attr ANone = ''null''"

fun attributeString :: "(string \<times> attr) list \<Rightarrow> string" where
  "attributeString [] = []"
| "attributeString ((attr, attribute) # others) =
     (if truthy_attr attribute
      then '' '' @ sanitizeText attr @ ''='' @ [DQUOTE] @ sanitizeText (String_attr attribute)
             @ [DQUOTE] @ attributeString others
      else attributeString others)"

definition htmlTag :: "string \<Rightarrow> string \<Rightarrow> (string \<times> attr) list \<Rightarrow> bool \<Rightarrow> string" where
  "htmlTag tagName content attributes isClosed =
     (let unclosedTag = ''<'' @ tagName @ attributeString attributes @ ''>''
      in if isClosed then unclosedTag @ content @ ''</'' @ tagName @ ''>''
         else unclosedTag)"

section \<open>Parser state, nodes and rules\<close>

text \<open>
  The state object threaded through a parse. The fields the library reads and writes are
  modelled by their truth value (\<open>inline\<close>, \<open>disableAutoBlockNewlines\<close>, \<open>inTable\<close>,
  \<open>_list\<close>), by their content (\<open>prevCapture\<close>, \<open>_defs\<close>, \<open>_refs\<close>); every other
  property of the object is the client's and lives in \<open>client\<close>. Reference nodes are
  objects shared between the tree and \<open>_refs\<close>: they are kept in \<open>refnodes\<close>, and both
  the tree and \<open>_refs\<close> hold their positions in it.
\<close>

datatype 'p node = Node (ntype: "string option") (payload: 'p)

record ('p, 'c) state =
  inline :: bool
  disableAutoBlockNewlines :: bool
  inTable :: bool
  list' :: bool
  prevCapture :: "capture option"
  defs' :: "(string \<times> string \<times> string option) list"
  refs' :: "(string \<times> nat list) list"
  refnodes :: "'p node list"
  client :: 'c

datatype error =
    NoMatchingRule string string
  | UnanchoredMatch
  | TypeError string
  | SyntaxError string

text \<open>
  What a call returns: \<open>None\<close> when it does not return (the fuel of the model ran out),
  otherwise the exception thrown or the value.
\<close>

type_synonym 'a result = "(error + 'a) option"

type_synonym ('p, 'c) parser =
  "string \<Rightarrow> ('p, 'c) state \<Rightarrow> ('p node list \<times> ('p, 'c) state) result"

datatype 'p parsed = Single "'p node" | Many "'p node list"

text \<open>What an output function is given: one node, or an array of nodes.\<close>

datatype 'p ast = One "'p node" | Arr "'p node list"

text \<open>A number as a rule's \<open>quality\<close> returns it: \<open>None\<close> is \<open>NaN\<close>.\<close>

type_synonym jsnum = "rat option"

record ('p, 'c) rule =
  order :: rat
  match :: "(string \<Rightarrow> ('p, 'c) state \<Rightarrow> string \<Rightarrow> capture option) option"
  quality :: "(capture \<Rightarrow> ('p, 'c) state \<Rightarrow> string \<Rightarrow> jsnum) option"
  parse :: "capture \<Rightarrow> ('p, 'c) parser \<Rightarrow> ('p, 'c) state \<Rightarrow> ('p parsed \<times> ('p, 'c) state) result"
  html :: "('p node \<Rightarrow> ('p ast \<Rightarrow> string result) \<Rightarrow> string result) option"

type_synonym ('p, 'c) rules = "(string \<times> ('p, 'c) rule) list"

section \<open>The parser dispatcher\<close>

text \<open>
  \<open>populateInitialState\<close> copies the own properties of the default state into the given
  one. A default state is modelled by the function that writes its properties.
\<close>

definition populateInitialState ::
  "('p, 'c) state \<Rightarrow> (('p, 'c) state \<Rightarrow> ('p, 'c) state) option \<Rightarrow> ('p, 'c) state" where
  "populateInitialState givenState defaultState =
     (case defaultState of None \<Rightarrow> givenState | Some copy \<Rightarrow> copy givenState)"

text \<open>The comparator of the sort in \<open>parserFor\<close>, as "a comes before b".\<close>

definition rule_before :: "string \<times> ('p, 'c) rule \<Rightarrow> string \<times> ('p, 'c) rule \<Rightarrow> bool" where
  "rule_before a b =
     (let orderA = order (snd a); orderB = order (snd b);
          secondaryOrderA = (if quality (snd a) \<noteq> None then 0 else 1 :: nat);
          secondaryOrderB = (if quality (snd b) \<noteq> None then 0 else 1 :: nat)
      in if orderA \<noteq> orderB then orderA < orderB
         else if secondaryOrderA \<noteq> secondaryOrderB then secondaryOrderA < secondaryOrderB
         else fst a < fst b)"

fun insert_rule :: "string \<times> ('p, 'c) rule \<Rightarrow> ('p, 'c) rules \<Rightarrow> ('p, 'c) rules" where
  "insert_rule a [] = [a]"
| "insert_rule a (b # bs) = (if rule_before b a then b # insert_rule a bs else a # b # bs)"

definition ruleList :: "('p, 'c) rules \<Rightarrow> ('p, 'c) rules" where
  "ruleList rules = foldr insert_rule (filter (\<lambda>(type, rule). match rule \<noteq> None) rules) []"

text \<open>
  The \<open>do ... while\<close> loop of \<open>nestedParse\<close> that picks the rule: \<open>best\<close> is the
  best match so far with its quality, the head of the list is \<open>currRule\<close>.
\<close>

definition num_le :: "jsnum \<Rightarrow> jsnum \<Rightarrow> bool" where
  "num_le a b = (case (a, b) of (Some x, Some y) \<Rightarrow> x \<le> y | _ \<Rightarrow> False)"

type_synonym ('p, 'c) best = "(string \<times> ('p, 'c) rule \<times> capture \<times> jsnum) option"

definition best_quality :: "('p, 'c) best \<Rightarrow> jsnum" where
  "best_quality best = (case best of None \<Rightarrow> None | Some (t, r, c, q) \<Rightarrow> q)"

text \<open>\<open>currRule.match(source, state, prevCaptureStr)\<close>, for a rule that has a \<open>match\<close>.\<close>

definition prevCaptureStr :: "('p, 'c) state \<Rightarrow> string" where
  "prevCaptureStr st = (case prevCapture st of None \<Rightarrow> [] | Some c \<Rightarrow> cfull c)"

definition rule_capture :: "('p, 'c) rule \<Rightarrow> string \<Rightarrow> ('p, 'c) state \<Rightarrow> capture option" where
  "rule_capture rule source st =
     (case match rule of None \<Rightarrow> None | Some m \<Rightarrow> m source st (prevCaptureStr st))"

definition try_rule ::
  "string \<times> ('p, 'c) rule \<Rightarrow> string \<Rightarrow> ('p, 'c) state \<Rightarrow> ('p, 'c) best \<Rightarrow> ('p, 'c) best" where
  "try_rule currR source st best =
     (case rule_capture (snd currR) source st of
        None \<Rightarrow> best
      | Some currCapture \<Rightarrow>
          (let currQuality = (case quality (snd currR) of
                                None \<Rightarrow> Some 0
                              | Some q \<Rightarrow> q currCapture st (prevCaptureStr st))
           in if \<not> num_le currQuality (best_quality best)
              then Some (fst currR, snd currR, currCapture, currQuality)
              else best))"

fun pick_rule ::
  "('p, 'c) rules \<Rightarrow> string \<Rightarrow> ('p, 'c) state \<Rightarrow> ('p, 'c) best \<Rightarrow> ('p, 'c) best" where
  "pick_rule [] source st best = best"
| "pick_rule [currR] source st best = try_rule currR source st best"
| "pick_rule (currR # nxt # others) source st best =
     (case try_rule currR source st best of
        None \<Rightarrow> pick_rule (nxt # others) source st None
      | Some b \<Rightarrow>
          if order (snd nxt) = order (snd currR) \<and> quality (snd nxt) \<noteq> None
          then pick_rule (nxt # others) source st (Some b)
          else Some b)"

definition typed :: "string \<Rightarrow> 'p parsed \<Rightarrow> 'p node list" where
  "typed ruleType parsed =
     (case parsed of
        Many nodes \<Rightarrow> nodes
      | Single n \<Rightarrow> [if ntype n = None then Node (Some ruleType) (payload n) else n])"

fun nestedParse :: "nat \<Rightarrow> ('p, 'c) rules \<Rightarrow> ('p, 'c) parser" where
  "nestedParse 0 ruleL source st = None"
| "nestedParse (Suc fuel) ruleL source st =
     (if source = [] then Some (Inr ([], st))
      else if ruleL = [] then Some (Inl (TypeError ''currRule is undefined''))
      else
        (case pick_rule ruleL source st None of
           None \<Rightarrow> Some (Inl (NoMatchingRule (fst (last ruleL)) source))
         | Some (ruleType, rule, capture, q) \<Rightarrow>
             if cindex capture \<noteq> 0 then Some (Inl UnanchoredMatch)
             else
               (case parse rule capture (nestedParse fuel ruleL) st of
                  None \<Rightarrow> None
                | Some (Inl e) \<Rightarrow> Some (Inl e)
                | Some (Inr (parsed, st1)) \<Rightarrow>
                    (case nestedParse fuel ruleL
                            (substring source (length (cfull capture)))
                            (st1\<lparr>prevCapture := Some capture\<rparr>) of
                       None \<Rightarrow> None
                     | Some (Inl e) \<Rightarrow> Some (Inl e)
                     | Some (Inr (nodes, st2)) \<Rightarrow>
                         Some (Inr (typed ruleType parsed @ nodes, st2))))))"

definition outerParse ::
  "nat \<Rightarrow> ('p, 'c) rules \<Rightarrow> (('p, 'c) state \<Rightarrow> ('p, 'c) state) option \<Rightarrow> ('p, 'c) parser" where
  "outerParse fuel ruleL defaultState source st =
     (let latestState = populateInitialState st defaultState;
          source1 = (if \<not> inline latestState \<and> \<not> disableAutoBlockNewlines latestState
                     then source @ [NL, NL] else source)
      in nestedParse fuel ruleL (preprocess source1) (latestState\<lparr>prevCapture := None\<rparr>))"

definition parserFor ::
  "('p, 'c) rules \<Rightarrow> (('p, 'c) state \<Rightarrow> ('p, 'c) state) option \<Rightarrow> nat \<Rightarrow> ('p, 'c) parser" where
  "parserFor rules defaultState = (\<lambda>fuel. outerParse fuel (ruleList rules) defaultState)"

subsection \<open>Match adapters and parse helpers\<close>

definition inlineRegex :: "regex \<Rightarrow> string \<Rightarrow> ('p, 'c) state \<Rightarrow> string \<Rightarrow> capture option" where
  "inlineRegex regex source st prevStr = (if inline st then exec regex source else None)"

definition blockRegex :: "regex \<Rightarrow> string \<Rightarrow> ('p, 'c) state \<Rightarrow> string \<Rightarrow> capture option" where
  "blockRegex regex source st prevStr = (if inline st then None else exec regex source)"

definition anyScopeRegex :: "regex \<Rightarrow> string \<Rightarrow> ('p, 'c) state \<Rightarrow> string \<Rightarrow> capture option" where
  "anyScopeRegex regex source st prevStr = exec regex source"

definition bind_result :: "'a result \<Rightarrow> ('a \<Rightarrow> 'b result) \<Rightarrow> 'b result" where
  "bind_result r f =
     (case r of None \<Rightarrow> None | Some (Inl e) \<Rightarrow> Some (Inl e) | Some (Inr x) \<Rightarrow> f x)"

definition ok :: "'a \<Rightarrow> 'a result" where
  "ok x = Some (Inr x)"

definition parseInline ::
  "('p, 'c) parser \<Rightarrow> string \<Rightarrow> ('p, 'c) state \<Rightarrow> ('p node list \<times> ('p, 'c) state) result" where
  "parseInline parse' content st =
     (let isCurrentlyInline = inline st
      in bind_result (parse' content (st\<lparr>inline := True\<rparr>))
           (\<lambda>(result, st1). ok (result, st1\<lparr>inline := isCurrentlyInline\<rparr>)))"

definition parseBlock ::
  "('p, 'c) parser \<Rightarrow> string \<Rightarrow> ('p, 'c) state \<Rightarrow> ('p node list \<times> ('p, 'c) state) result" where
  "parseBlock parse' content st =
     (let isCurrentlyInline = inline st
      in bind_result (parse' (content @ [NL, NL]) (st\<lparr>inline := False\<rparr>))
           (\<lambda>(result, st1). ok (result, st1\<lparr>inline := isCurrentlyInline\<rparr>)))"

section \<open>The patterns of the default rules\<close>

definition sp :: regex where "sp = one CHR '' ''"

text \<open>\<open>(?:\n *)+\n\<close>, the blank lines that end a block.\<close>

definition blank_tail :: regex where
  "blank_tail = Seq (plus (Seq (one NL) (star sp))) (one NL)"

definition heading_R :: regex where
  "heading_R =
     seqs [Bol False, star sp, Grp 1 (Rep True 1 (Some 6) (one CHR ''#'')),
           Grp 2 (lplus (noneof [NL])), star (one CHR ''#''), star sp, blank_tail]"

definition NPTABLE_REGEX :: regex where
  "NPTABLE_REGEX =
     seqs [Bol False, star sp,
           Grp 1 (seqs [nonspace, star dot, one CHR ''|'', star dot]),
           one NL, star sp,
           Grp 2 (seqs [plus (oneof ''-:''), star sp, one CHR ''|'', star (oneof ''-| :'')]),
           one NL,
           Grp 3 (star (seqs [star dot, one CHR ''|'', star dot, Alt (one NL) (Eol False)])),
           star (one NL)]"

definition TABLE_REGEX :: regex where
  "TABLE_REGEX =
     seqs [Bol False, star sp,
           Grp 1 (Seq (one CHR ''|'') (plus dot)),
           one NL, star sp, one CHR ''|'',
           Grp 2 (seqs [star sp, plus (oneof ''-:''), star (oneof ''-| :'')]),
           one NL,
           Grp 3 (star (seqs [star sp, one CHR ''|'', star dot, Alt (one NL) (Eol False)])),
           star (one NL)]"

definition lheading_R :: regex where
  "lheading_R =
     seqs [Bol False, Grp 1 (plus (noneof [NL])), one NL, star sp,
           atleast 3 (Grp 2 (Alt (one CHR ''='') (one CHR ''-''))), star sp, blank_tail]"

definition hr_R :: regex where
  "hr_R = seqs [Bol False, atleast 3 (Grp 1 (Seq (star sp) (oneof ''-*_''))), star sp, blank_tail]"

definition codeBlock_R :: regex where
  "codeBlock_R =
     seqs [Bol False, plus (seqs [lit ''    '', plus (noneof [NL]), star (one NL)]), blank_tail]"

definition fence_R :: regex where
  "fence_R =
     seqs [Bol False, star sp,
           Grp 1 (Alt (atleast 3 (one BACKTICK)) (atleast 3 (one CHR ''~''))),
           star sp, opt (Seq (Grp 2 (plus nonspace)) (star sp)), one NL,
           Grp 3 (lplus anychar), opt (one NL), Bref 1, star sp, blank_tail]"

definition blockQuote_R :: regex where
  "blockQuote_R =
     seqs [Bol False,
           plus (Grp 1 (seqs [star sp, one CHR ''>'', plus (noneof [NL]),
                              star (Grp 2 (Seq (one NL) (plus (noneof [NL])))),
                              star (one NL)])),
           atleast 2 (one NL)]"

definition LIST_BULLET :: regex where
  "LIST_BULLET = Alt (oneof ''*+-'') (Seq (plus digit) (one CHR ''.''))"

definition LIST_ITEM_PREFIX :: regex where
  "LIST_ITEM_PREFIX = seqs [Grp 1 (star sp), Grp 2 LIST_BULLET, plus sp]"

definition LIST_ITEM_PREFIX_R :: regex where
  "LIST_ITEM_PREFIX_R = Seq (Bol False) LIST_ITEM_PREFIX"

definition LIST_ITEM_R :: regex where
  "LIST_ITEM_R =
     seqs [LIST_ITEM_PREFIX, star (noneof [NL]),
           star (seqs [one NL, Look False (seqs [Bref 1, LIST_BULLET, sp]), star (noneof [NL])]),
           Grp 3 (Alt (one NL) (Eol True))]"

definition BLOCK_END_R :: regex where
  "BLOCK_END_R = Seq (atleast 2 (one NL)) (Eol False)"

text \<open>
  The pattern that the specification gives for the test of \<open>defaultImplicitParse\<close>,
  \<open>^.*\n{2,}$\<close>, to be compared with \<open>BLOCK_END_R\<close>.
\<close>

definition SPEC_BLOCK_END_R :: regex where
  "SPEC_BLOCK_END_R = seqs [Bol False, star dot, atleast 2 (one NL), Eol False]"

definition INLINE_CODE_ESCAPE_BACKTICKS_R :: regex where
  "INLINE_CODE_ESCAPE_BACKTICKS_R =
     Alt (seqs [Bol False, sp, Look True (Seq (star sp) (one BACKTICK))])
         (seqs [Grp 1 (Seq (one BACKTICK) (star sp)), sp, Eol False])"

definition LIST_BLOCK_END_R :: regex where
  "LIST_BLOCK_END_R = BLOCK_END_R"

definition LIST_ITEM_END_R :: regex where
  "LIST_ITEM_END_R = seqs [star sp, plus (one NL), Eol False]"

definition LIST_R :: regex where
  "LIST_R =
     seqs [Bol False, Grp 1 (star sp), Grp 2 LIST_BULLET, sp, lplus anychar,
           Alt (seqs [atleast 2 (one NL), Look False sp,
                      Look False (seqs [Bref 1, LIST_BULLET, sp]), star (one NL)])
               (seqs [star space, star (one NL), Eol False])]"

definition LIST_LOOKBEHIND_R :: regex where
  "LIST_LOOKBEHIND_R = seqs [Alt (Bol False) (one NL), Grp 1 (star sp), Eol False]"

definition TABLE_ROW_SEPARATOR_TRIM :: regex where
  "TABLE_ROW_SEPARATOR_TRIM =
     Alt (seqs [Bol False, star sp, one CHR ''|'', star sp])
         (seqs [star sp, one CHR ''|'', star sp, Eol False])"

definition TABLE_CELL_END_TRIM :: regex where
  "TABLE_CELL_END_TRIM = Seq (star sp) (Eol False)"

definition TABLE_RIGHT_ALIGN :: regex where
  "TABLE_RIGHT_ALIGN =
     seqs [Bol False, star sp, plus (one CHR ''-''), one CHR '':'', star sp, Eol False]"

definition TABLE_CENTER_ALIGN :: regex where
  "TABLE_CENTER_ALIGN =
     seqs [Bol False, star sp, one CHR '':'', plus (one CHR ''-''), one CHR '':'', star sp,
           Eol False]"

definition TABLE_LEFT_ALIGN :: regex where
  "TABLE_LEFT_ALIGN =
     seqs [Bol False, star sp, one CHR '':'', plus (one CHR ''-''), star sp, Eol False]"

definition LINK_INSIDE :: regex where
  "LINK_INSIDE =
     star (alts [seqs [one CHR ''['', star (noneof '']''), one CHR '']''],
                 noneof ''[]'',
                 Seq (one CHR '']'') (Look True (Seq (star (noneof ''['')) (one CHR '']'')))])"

text \<open>
  \<open>LINK_HREF_AND_TITLE\<close> follows one group in every pattern that uses it, so its
  groups are the second and the third.
\<close>

definition LINK_HREF_AND_TITLE :: regex where
  "LINK_HREF_AND_TITLE =
     seqs [star space, opt (one CHR ''<''),
           Grp 2 (lstar (alts [seqs [one CHR ''('', star (noneof '')''), one CHR '')''],
                               Chr (\<lambda>x. \<not> is_space x \<and> x \<noteq> BSLASH),
                               Seq (one BSLASH) dot])),
           opt (one CHR ''>''),
           opt (seqs [plus space, oneof [SQUOTE, DQUOTE], Grp 3 (lstar anychar),
                      oneof [SQUOTE, DQUOTE]]),
           star space]"

definition AUTOLINK_MAILTO_CHECK_R :: regex where
  "AUTOLINK_MAILTO_CHECK_R =
     seqs [oneof ''mM'', oneof ''aA'', oneof ''iI'', oneof ''lL'', oneof ''tT'', oneof ''oO'',
           one CHR '':'']"

definition def_R :: regex where
  "def_R =
     seqs [Bol False, star sp, one CHR ''['', Grp 1 (plus (noneof '']'')), one CHR '']'',
           one CHR '':'', star sp, opt (one CHR ''<''),
           Grp 2 (star (Chr (\<lambda>x. \<not> is_space x \<and> x \<noteq> CHR ''>''))),
           opt (one CHR ''>''),
           opt (seqs [plus sp, oneof [DQUOTE, CHR ''(''], Grp 3 (plus (noneof [NL])),
                      oneof [DQUOTE, CHR '')'']]),
           star sp, one NL, star (Seq (star sp) (one NL))]"

definition newline_R :: regex where
  "newline_R = seqs [Bol False, star (Seq (one NL) (star sp)), one NL]"

definition paragraph_R :: regex where
  "paragraph_R =
     seqs [Bol False,
           Grp 1 (plus (Alt (noneof [NL])
                            (Seq (one NL) (Look False (Seq (star sp) (one NL)))))),
           blank_tail]"

definition escape_R :: regex where
  "escape_R = seqs [Bol False, one BSLASH, Grp 1 (Chr (\<lambda>x. \<not> is_alnum x \<and> \<not> is_space x))]"

definition tableSeparator_R :: regex where
  "tableSeparator_R = seqs [Bol False, star sp, one CHR ''|'', star sp]"

definition autolink_R :: regex where
  "autolink_R =
     seqs [Bol False, one CHR ''<'',
           Grp 1 (seqs [plus (noneof '': >''), one CHR '':'', one CHR ''/'', plus (noneof '' >'')]),
           one CHR ''>'']"

definition mailto_R :: regex where
  "mailto_R =
     seqs [Bol False, one CHR ''<'',
           Grp 1 (seqs [plus (noneof '' >''), one CHR ''@'', plus (noneof '' >'')]),
           one CHR ''>'']"

definition url_R :: regex where
  "url_R =
     seqs [Bol False,
           Grp 1 (seqs [lit ''http'', opt (one CHR ''s''), lit ''://'',
                        plus (Chr (\<lambda>x. \<not> is_space x \<and> x \<noteq> CHR ''<'')),
                        Chr (\<lambda>x. x \<notin> set ''<.,:;'' \<and> x \<noteq> DQUOTE \<and> x \<noteq> SQUOTE
                                 \<and> x \<notin> set '')]'' \<and> \<not> is_space x)])]"

definition link_R :: regex where
  "link_R =
     seqs [Bol False, one CHR ''['', Grp 1 LINK_INSIDE, one CHR '']'', one CHR ''('',
           LINK_HREF_AND_TITLE, one CHR '')'']"

definition image_R :: regex where
  "image_R =
     seqs [Bol False, one CHR ''!'', one CHR ''['', Grp 1 LINK_INSIDE, one CHR '']'',
           one CHR ''('', LINK_HREF_AND_TITLE, one CHR '')'']"

definition reflink_R :: regex where
  "reflink_R =
     seqs [Bol False, one CHR ''['', Grp 1 LINK_INSIDE, one CHR '']'', star space,
           one CHR ''['', Grp 2 (star (noneof '']'')), one CHR '']'']"

definition refimage_R :: regex where
  "refimage_R =
     seqs [Bol False, one CHR ''!'', one CHR ''['', Grp 1 LINK_INSIDE, one CHR '']'', star space,
           one CHR ''['', Grp 2 (star (noneof '']'')), one CHR '']'']"

definition escaped :: regex where
  "escaped = Seq (one BSLASH) anychar"

definition em_plain :: regex where
  "em_plain = Chr (\<lambda>x. \<not> is_space x \<and> x \<noteq> CHR ''*'' \<and> x \<noteq> BSLASH)"

definition em_R :: regex where
  "em_R =
     Alt (seqs [Bol False, Wordb, one CHR ''_'',
                Grp 1 (lplus (alts [lit ''__'', escaped, noneof [BSLASH, CHR ''_'']])),
                one CHR ''_'', Wordb])
         (seqs [Bol False, one CHR ''*'', Look True nonspace,
                Grp 2 (lplus (alts [lit ''**'', escaped,
                                    Seq (plus space) (alts [escaped, em_plain, lit ''**'']),
                                    em_plain])),
                one CHR ''*'', Look False (one CHR ''*'')])"

definition strong_R :: regex where
  "strong_R =
     seqs [Bol False, lit ''**'', Grp 1 (lplus (Alt escaped (noneof [BSLASH]))), lit ''**'',
           Look False (one CHR ''*'')]"

definition u_R :: regex where
  "u_R =
     seqs [Bol False, lit ''__'', Grp 1 (lplus (Alt escaped (noneof [BSLASH]))), lit ''__'',
           Look False (one CHR ''_'')]"

definition del_R :: regex where
  "del_R =
     seqs [Bol False, lit ''~~'', Look True nonspace,
           Grp 1 (lplus (alts [escaped,
                               Seq (one CHR ''~'') (Look False (one CHR ''~'')),
                               Chr (\<lambda>x. \<not> is_space x \<and> x \<noteq> CHR ''~'' \<and> x \<noteq> BSLASH),
                               Seq space (Look False (lit ''~~''))])),
           lit ''~~'']"

definition inlineCode_R :: regex where
  "inlineCode_R =
     seqs [Bol False, Grp 1 (plus (one BACKTICK)),
           Grp 2 (Seq (lstar anychar) (noneof [BACKTICK])), Bref 1,
           Look False (one BACKTICK)]"

definition br_R :: regex where
  "br_R = seqs [Bol False, atleast 2 sp, one NL]"

definition text_R :: regex where
  "text_R =
     seqs [Bol False, lplus anychar,
           Look True (alts [Chr (\<lambda>x. \<not> is_alnum x \<and> \<not> is_space x \<and> \<not> is_high x),
                            lit [NL, NL],
                            seqs [atleast 2 sp, one NL],
                            seqs [plus wordchar, one CHR '':'', nonspace],
                            Eol False])]"

section \<open>The default rules\<close>

text \<open>
  The fields of a node other than its type. A reference link or image is an object that
  \<open>parseRef\<close> and the \<open>def\<close> rule change after it was put in the tree: the tree holds
  \<open>RefNode i\<close>, the position of the object in \<open>refnodes\<close>.
\<close>

datatype payload =
    Empty
  | Heading nat "payload node list"
  | Content "payload node list"
  | Text string
  | CodeBlock "string option" string
  | Link "payload node list" "string option" "string option"
  | Image string "string option" "string option"
  | RefNode nat
  | ListP bool "nat option" "payload node list list"
  | Def string string "string option"
  | Table "payload node list list" "string option list" "payload node list list list"

type_synonym 'c mstate' = "(payload, 'c) state"
type_synonym 'c mparser = "(payload, 'c) parser"
type_synonym 'c mrule = "(payload, 'c) rule"
type_synonym 'c parsefn =
  "capture \<Rightarrow> 'c mparser \<Rightarrow> 'c mstate' \<Rightarrow> (payload parsed \<times> 'c mstate') result"

text \<open>\<open>capture[n]\<close> for a group the pattern always sets.\<close>

definition group :: "capture \<Rightarrow> nat \<Rightarrow> string" where
  "group c n = (case cap c n of Some g \<Rightarrow> g | None \<Rightarrow> [])"

definition parseCaptureInline :: "'c parsefn" where
  "parseCaptureInline capture parse' st =
     bind_result (parseInline parse' (group capture 1) st)
       (\<lambda>(content, st1). ok (Single (Node None (Content content)), st1))"

definition ignoreCapture :: "'c parsefn" where
  "ignoreCapture capture parse' st = ok (Single (Node None Empty), st)"

subsection \<open>Tables\<close>

definition parseTableAlignCapture :: "string \<Rightarrow> string option" where
  "parseTableAlignCapture alignCapture =
     (if test TABLE_RIGHT_ALIGN alignCapture then Some ''right''
      else if test TABLE_CENTER_ALIGN alignCapture then Some ''center''
      else if test TABLE_LEFT_ALIGN alignCapture then Some ''left''
      else None)"

definition parseTableAlign :: "string \<Rightarrow> bool \<Rightarrow> string option list" where
  "parseTableAlign source trimEndSeparators =
     (let source1 = (if trimEndSeparators
                     then replace_g TABLE_ROW_SEPARATOR_TRIM (\<lambda>c. []) source else source);
          alignText = split_char CHR ''|'' (trim source1)
      in map parseTableAlignCapture alignText)"

text \<open>
  The \<open>forEach\<close> of \<open>parseTableRow\<close>: \<open>cells\<close> is kept with the current cell first and
  each cell reversed. A node of type \<open>text\<close> carries a string content.
\<close>

definition is_type :: "string \<Rightarrow> 'p node \<Rightarrow> bool" where
  "is_type t n = (ntype n = Some t)"

definition trim_cell_end :: "payload node \<Rightarrow> payload node" where
  "trim_cell_end n =
     (case payload n of
        Text content \<Rightarrow> Node (ntype n) (Text (replace1 TABLE_CELL_END_TRIM (\<lambda>c. []) content))
      | _ \<Rightarrow> n)"

fun table_cells ::
  "bool \<Rightarrow> nat \<Rightarrow> nat \<Rightarrow> payload node list \<Rightarrow> payload node list list \<Rightarrow> payload node list list" where
  "table_cells trimEndSeparators len i [] cells = rev (map rev cells)"
| "table_cells trimEndSeparators len i (n # ns) cells =
     (if is_type ''tableSeparator'' n then
        (if \<not> trimEndSeparators \<or> (i \<noteq> 0 \<and> i \<noteq> len - 1)
         then table_cells trimEndSeparators len (Suc i) ns ([] # cells)
         else table_cells trimEndSeparators len (Suc i) ns cells)
      else
        (let n1 = (if is_type ''text'' n
                      \<and> (case ns of [] \<Rightarrow> True | m # ms \<Rightarrow> is_type ''tableSeparator'' m)
                   then trim_cell_end n else n)
         in table_cells trimEndSeparators len (Suc i) ns
              (case cells of [] \<Rightarrow> [[n1]] | cell # others \<Rightarrow> (n1 # cell) # others)))"

definition parseTableRow ::
  "string \<Rightarrow> 'c mparser \<Rightarrow> 'c mstate' \<Rightarrow> bool \<Rightarrow> (payload node list list \<times> 'c mstate') result" where
  "parseTableRow source parse' st trimEndSeparators =
     (let prevInTable = inTable st
      in bind_result (parse' (trim source) (st\<lparr>inTable := True\<rparr>))
           (\<lambda>(tableRow, st1).
              ok (table_cells trimEndSeparators (length tableRow) 0 tableRow [[]],
                  st1\<lparr>inTable := prevInTable\<rparr>)))"

fun parseTableRows ::
  "string list \<Rightarrow> 'c mparser \<Rightarrow> 'c mstate' \<Rightarrow> bool
     \<Rightarrow> (payload node list list list \<times> 'c mstate') result" where
  "parseTableRows [] parse' st trimEndSeparators = ok ([], st)"
| "parseTableRows (rowText # rowsText) parse' st trimEndSeparators =
     bind_result (parseTableRow rowText parse' st trimEndSeparators)
       (\<lambda>(row, st1).
          bind_result (parseTableRows rowsText parse' st1 trimEndSeparators)
            (\<lambda>(rows, st2). ok (row # rows, st2)))"

definition parseTableCells ::
  "string \<Rightarrow> 'c mparser \<Rightarrow> 'c mstate' \<Rightarrow> bool
     \<Rightarrow> (payload node list list list \<times> 'c mstate') result" where
  "parseTableCells source parse' st trimEndSeparators =
     parseTableRows (split_char NL (trim source)) parse' st trimEndSeparators"

definition parseTable :: "bool \<Rightarrow> 'c parsefn" where
  "parseTable trimEndSeparators capture parse' st =
     bind_result (parseTableRow (group capture 1) parse' (st\<lparr>inline := True\<rparr>) trimEndSeparators)
       (\<lambda>(header, st1).
          let align = parseTableAlign (group capture 2) trimEndSeparators
          in bind_result (parseTableCells (group capture 3) parse' st1 trimEndSeparators)
               (\<lambda>(cells, st2).
                  ok (Single (Node (Some ''table'') (Table header align cells)),
                      st2\<lparr>inline := False\<rparr>)))"

subsection \<open>Reference links\<close>

definition WHITESPACE_RUN_R :: regex where
  "WHITESPACE_RUN_R = plus space"

definition ref_key :: "string \<Rightarrow> string" where
  "ref_key s = toLowerCase (replace_g WHITESPACE_RUN_R (\<lambda>c. '' '') s)"

definition set_target :: "string \<Rightarrow> string option \<Rightarrow> payload node \<Rightarrow> payload node" where
  "set_target target title n =
     (case payload n of
        Link content t0 t1 \<Rightarrow> Node (ntype n) (Link content (Some target) title)
      | Image alt t0 t1 \<Rightarrow> Node (ntype n) (Image alt (Some target) title)
      | _ \<Rightarrow> n)"

text \<open>
  \<open>_defs\<close> and \<open>_refs\<close> are objects used as maps, here association lists (an empty list
  is also the absent field). Reading a key that the object does not have itself gives
  what \<open>Object.prototype\<close> has under that name. The keys are in lower case, so of those
  names they can be \<open>constructor\<close> and \<open>__proto__\<close>; what is read there is no list, and
  \<open>push\<close> and \<open>forEach\<close> on it throw a \<open>TypeError\<close>.
\<close>

definition inherited :: "string \<Rightarrow> bool" where
  "inherited key = (key = ''constructor'' \<or> key = ''__proto__'')"

definition parseRef ::
  "capture \<Rightarrow> 'c mstate' \<Rightarrow> payload node \<Rightarrow> (payload node \<times> 'c mstate') result" where
  "parseRef capture st refNode =
     (let ref = ref_key (case cap capture 2 of
                           Some g \<Rightarrow> if g = [] then group capture 1 else g
                         | None \<Rightarrow> group capture 1);
          refNode1 = (case map_of (defs' st) ref of
                        Some (target, title) \<Rightarrow> set_target target title refNode
                      | None \<Rightarrow> refNode);
          i = length (refnodes st);
          pending = (case map_of (refs' st) ref of Some l \<Rightarrow> l | None \<Rightarrow> [])
      in if inherited ref
         then Some (Inl (TypeError ''state._refs[ref].push is not a function''))
         else ok (Node (ntype refNode) (RefNode i),
                  st\<lparr>refs' := (ref, pending @ [i]) # refs' st,
                     refnodes := refnodes st @ [refNode1]\<rparr>))"

fun patch_refs :: "string \<Rightarrow> string option \<Rightarrow> nat list \<Rightarrow> payload node list \<Rightarrow> payload node list" where
  "patch_refs target title [] nodes = nodes"
| "patch_refs target title (i # others) nodes =
     patch_refs target title others
       (if i < length nodes then nodes[i := set_target target title (nodes ! i)] else nodes)"

definition def_parse :: "'c parsefn" where
  "def_parse capture parse' st =
     (let def = ref_key (group capture 1);
          target = group capture 2;
          title = cap capture 3;
          st1 = (case map_of (refs' st) def of
                   Some pending \<Rightarrow> st\<lparr>refnodes := patch_refs target title pending (refnodes st)\<rparr>
                 | None \<Rightarrow> st)
      in if refs' st \<noteq> [] \<and> inherited def
         then Some (Inl (TypeError ''state._refs[def].forEach is not a function''))
         else ok (Single (Node None (Def def target title)),
                  st1\<lparr>defs' := (def, target, title) # defs' st1\<rparr>))"

subsection \<open>Lists\<close>

definition list_match :: "string \<Rightarrow> 'c mstate' \<Rightarrow> string \<Rightarrow> capture option" where
  "list_match source st prevStr =
     (let isStartOfLineCapture = exec LIST_LOOKBEHIND_R (prevCaptureStr st);
          isListBlock = (list' st \<or> \<not> inline st)
      in case isStartOfLineCapture of
           Some c \<Rightarrow> if isListBlock then exec LIST_R (group c 1 @ source) else None
         | None \<Rightarrow> None)"

definition digit_value :: "char \<Rightarrow> nat" where
  "digit_value d =
     (case map_of (zip ''0123456789'' [0, 1, 2, 3, 4, 5, 6, 7, 8, 9]) d of
        Some v \<Rightarrow> v
      | None \<Rightarrow> 0)"

text \<open>
  \<open>+bullet\<close> for a bullet \<open>\d+\.\<close>: the number its digits write (exactly; in the
  source it is the nearest double).
\<close>

definition number_of :: "string \<Rightarrow> nat" where
  "number_of ds = foldl (\<lambda>n d. 10 * n + digit_value d) 0 ds"

text \<open>
  One call of the function that \<open>list.parse\<close> maps over the items; the flag
  \<open>lastItemWasAParagraph\<close> of its closure is passed along.
\<close>

definition list_item ::
  "string \<Rightarrow> bool \<Rightarrow> bool \<Rightarrow> 'c mparser \<Rightarrow> 'c mstate'
     \<Rightarrow> ((payload node list \<times> bool) \<times> 'c mstate') result" where
  "list_item item isLastItem lastItemWasAParagraph parse' st =
     (let prefixCapture = exec LIST_ITEM_PREFIX_R item;
          space' = (case prefixCapture of Some c \<Rightarrow> length (cfull c) | None \<Rightarrow> 0)
      in if space' = 0 then Some (Inl (SyntaxError ''Invalid regular expression''))
         else
           (let spaceRegex = Seq (Bol True) (Rep True 1 (Some space') sp);
                content = replace1 LIST_ITEM_PREFIX_R (\<lambda>c. [])
                            (replace_g spaceRegex (\<lambda>c. []) item);
                containsBlocks = (indexOf content [NL, NL] \<noteq> None);
                thisItemIsAParagraph = (containsBlocks \<or> (isLastItem \<and> lastItemWasAParagraph));
                oldStateInline = inline st;
                oldStateList = list' st;
                adjustedContent =
                  (if thisItemIsAParagraph
                   then replace1 LIST_ITEM_END_R (\<lambda>c. [NL, NL]) content
                   else replace1 LIST_ITEM_END_R (\<lambda>c. []) content)
            in bind_result
                 (parse' adjustedContent
                    (st\<lparr>list' := True, inline := \<not> thisItemIsAParagraph\<rparr>))
                 (\<lambda>(result, st1).
                    ok ((result, thisItemIsAParagraph),
                        st1\<lparr>inline := oldStateInline, list' := oldStateList\<rparr>))))"

fun list_items ::
  "string list \<Rightarrow> bool \<Rightarrow> 'c mparser \<Rightarrow> 'c mstate'
     \<Rightarrow> (payload node list list \<times> 'c mstate') result" where
  "list_items [] lastItemWasAParagraph parse' st = ok ([], st)"
| "list_items (item # items) lastItemWasAParagraph parse' st =
     bind_result (list_item item (items = []) lastItemWasAParagraph parse' st)
       (\<lambda>((result, thisItemIsAParagraph), st1).
          bind_result (list_items items thisItemIsAParagraph parse' st1)
            (\<lambda>(results, st2). ok (result # results, st2)))"

definition list_parse :: "'c parsefn" where
  "list_parse capture parse' st =
     (let bullet = group capture 2;
          ordered = (1 < length bullet);
          start = (if ordered then Some (number_of (butlast bullet)) else None)
      in case match_g LIST_ITEM_R (replace1 LIST_BLOCK_END_R (\<lambda>c. [NL]) (cfull capture)) of
           None \<Rightarrow> Some (Inl (TypeError ''items is null''))
         | Some items \<Rightarrow>
             bind_result (list_items items False parse' st)
               (\<lambda>(itemContent, st1).
                  ok (Single (Node None (ListP ordered start itemContent)), st1)))"

subsection \<open>The other parse functions\<close>

definition heading_parse :: "'c parsefn" where
  "heading_parse capture parse' st =
     bind_result (parseInline parse' (trim (group capture 2)) st)
       (\<lambda>(content, st1).
          ok (Single (Node None (Heading (length (group capture 1)) content)), st1))"

definition lheading_parse :: "'c parsefn" where
  "lheading_parse capture parse' st =
     bind_result (parseInline parse' (group capture 1) st)
       (\<lambda>(content, st1).
          ok (Single (Node (Some ''heading'')
                        (Heading (if group capture 2 = ''='' then 1 else 2) content)), st1))"

definition INDENT_R :: regex where
  "INDENT_R = Seq (Bol True) (lit ''    '')"

definition TRAILING_NEWLINES_R :: regex where
  "TRAILING_NEWLINES_R = Seq (plus (one NL)) (Eol False)"

definition codeBlock_parse :: "'c parsefn" where
  "codeBlock_parse capture parse' st =
     (let content = replace1 TRAILING_NEWLINES_R (\<lambda>c. [])
                      (replace_g INDENT_R (\<lambda>c. []) (cfull capture))
      in ok (Single (Node None (CodeBlock None content)), st))"

definition fence_parse :: "'c parsefn" where
  "fence_parse capture parse' st =
     ok (Single (Node (Some ''codeBlock'')
                   (CodeBlock (case cap capture 2 of
                                 Some g \<Rightarrow> if g = [] then None else Some g
                               | None \<Rightarrow> None)
                              (group capture 3))), st)"

definition QUOTE_MARK_R :: regex where
  "QUOTE_MARK_R = seqs [Bol True, star sp, one CHR ''>'', opt sp]"

definition blockQuote_parse :: "'c parsefn" where
  "blockQuote_parse capture parse' st =
     (let content = replace_g QUOTE_MARK_R (\<lambda>c. []) (cfull capture)
      in bind_result (parse' content st)
           (\<lambda>(nodes, st1). ok (Single (Node None (Content nodes)), st1)))"

definition escape_parse :: "'c parsefn" where
  "escape_parse capture parse' st =
     ok (Single (Node (Some ''text'') (Text (group capture 1))), st)"

definition tableSeparator_match :: "string \<Rightarrow> 'c mstate' \<Rightarrow> string \<Rightarrow> capture option" where
  "tableSeparator_match source st prevStr =
     (if \<not> inTable st then None else exec tableSeparator_R source)"

definition tableSeparator_parse :: "'c parsefn" where
  "tableSeparator_parse capture parse' st =
     ok (Single (Node (Some ''tableSeparator'') Empty), st)"

definition autolink_parse :: "'c parsefn" where
  "autolink_parse capture parse' st =
     ok (Single (Node (Some ''link'')
                   (Link [Node (Some ''text'') (Text (group capture 1))]
                         (Some (group capture 1)) None)), st)"

definition mailto_parse :: "'c parsefn" where
  "mailto_parse capture parse' st =
     (let address = group capture 1;
          target = (if \<not> test AUTOLINK_MAILTO_CHECK_R address
                    then ''mailto:'' @ address else address)
      in ok (Single (Node (Some ''link'')
                       (Link [Node (Some ''text'') (Text address)] (Some target) None)), st))"

definition url_parse :: "'c parsefn" where
  "url_parse capture parse' st =
     ok (Single (Node (Some ''link'')
                   (Link [Node (Some ''text'') (Text (group capture 1))]
                         (Some (group capture 1)) None)), st)"

definition link_parse :: "'c parsefn" where
  "link_parse capture parse' st =
     bind_result (parse' (group capture 1) st)
       (\<lambda>(content, st1).
          ok (Single (Node None (Link content (Some (unescapeUrl (group capture 2)))
                                      (cap capture 3))), st1))"

definition image_parse :: "'c parsefn" where
  "image_parse capture parse' st =
     ok (Single (Node None (Image (group capture 1) (Some (unescapeUrl (group capture 2)))
                                  (cap capture 3))), st)"

definition reflink_parse :: "'c parsefn" where
  "reflink_parse capture parse' st =
     bind_result (parse' (group capture 1) st)
       (\<lambda>(content, st1).
          bind_result (parseRef capture st1 (Node (Some ''link'') (Link content None None)))
            (\<lambda>(n, st2). ok (Single n, st2)))"

definition refimage_parse :: "'c parsefn" where
  "refimage_parse capture parse' st =
     bind_result (parseRef capture st (Node (Some ''image'') (Image (group capture 1) None None)))
       (\<lambda>(n, st1). ok (Single n, st1))"

definition em_parse :: "'c parsefn" where
  "em_parse capture parse' st =
     bind_result (parse' (case cap capture 2 of
                            Some g \<Rightarrow> if g = [] then group capture 1 else g
                          | None \<Rightarrow> group capture 1) st)
       (\<lambda>(content, st1). ok (Single (Node None (Content content)), st1))"

definition inlineCode_parse :: "'c parsefn" where
  "inlineCode_parse capture parse' st =
     ok (Single (Node None
                   (Text (replace_g INLINE_CODE_ESCAPE_BACKTICKS_R (dollar 1) (group capture 2)))),
         st)"

definition text_parse :: "'c parsefn" where
  "text_parse capture parse' st = ok (Single (Node None (Text (cfull capture))), st)"

text \<open>
  The quality functions: \<open>capture[0].length\<close> plus 0.2, 0.1 and 0. The sums are exact
  here; in the source they are doubles, which order the same way for every length a
  string can have.
\<close>

definition em_quality :: "capture \<Rightarrow> 'c mstate' \<Rightarrow> string \<Rightarrow> jsnum" where
  "em_quality capture st prevStr = Some (of_nat (length (cfull capture)) + 2 / 10)"

definition strong_quality :: "capture \<Rightarrow> 'c mstate' \<Rightarrow> string \<Rightarrow> jsnum" where
  "strong_quality capture st prevStr = Some (of_nat (length (cfull capture)) + 1 / 10)"

definition u_quality :: "capture \<Rightarrow> 'c mstate' \<Rightarrow> string \<Rightarrow> jsnum" where
  "u_quality capture st prevStr = Some (of_nat (length (cfull capture)))"

subsection \<open>The rule table\<close>

text \<open>The output functions of the rules, for the \<open>html\<close> property.\<close>

type_synonym htmlfn = "payload node \<Rightarrow> (payload ast \<Rightarrow> string result) \<Rightarrow> string result"

definition wrong_shape :: "string result" where
  "wrong_shape = Some (Inl (TypeError ''a field of the node is undefined''))"

definition heading_html :: htmlfn where
  "heading_html n output =
     (case payload n of
        Heading level content \<Rightarrow>
          bind_result (output (Arr content))
            (\<lambda>inner. ok (htmlTag (''h'' @ digits_of level) inner [] True))
      | _ \<Rightarrow> wrong_shape)"

definition hr_html :: htmlfn where
  "hr_html n output = ok ''<hr>''"

definition codeBlock_html :: htmlfn where
  "codeBlock_html n output =
     (case payload n of
        CodeBlock lang content \<Rightarrow>
          (let className = (case lang of
                              None \<Rightarrow> ANone
                            | Some l \<Rightarrow> if l = [] then ANone else AStr (''markdown-code-'' @ l));
               codeBlock = htmlTag ''code'' (sanitizeText content) [(''class'', className)] True
           in ok (htmlTag ''pre'' codeBlock [] True))
      | _ \<Rightarrow> wrong_shape)"

definition wrap_html :: "string \<Rightarrow> (string \<times> attr) list \<Rightarrow> htmlfn" where
  "wrap_html tagName attributes n output =
     (case payload n of
        Content content \<Rightarrow>
          bind_result (output (Arr content))
            (\<lambda>inner. ok (htmlTag tagName inner attributes True))
      | _ \<Rightarrow> wrong_shape)"

definition blockQuote_html :: htmlfn where
  "blockQuote_html = wrap_html ''blockquote'' []"

fun list_items_html :: "payload node list list \<Rightarrow> (payload ast \<Rightarrow> string result) \<Rightarrow> string result" where
  "list_items_html [] output = ok []"
| "list_items_html (item # items) output =
     bind_result (output (Arr item))
       (\<lambda>inner. bind_result (list_items_html items output)
          (\<lambda>others. ok (htmlTag ''li'' inner [] True @ others)))"

definition list_html :: htmlfn where
  "list_html n output =
     (case payload n of
        ListP ordered start items \<Rightarrow>
          bind_result (list_items_html items output)
            (\<lambda>listItems.
               let listTag = (if ordered then ''ol'' else ''ul'');
                   attributes = [(''start'', case start of None \<Rightarrow> ANone | Some k \<Rightarrow> ANum k)]
               in ok (htmlTag listTag listItems attributes True))
      | _ \<Rightarrow> wrong_shape)"

definition def_html :: htmlfn where
  "def_html n output = ok []"

definition getStyle :: "string option list \<Rightarrow> nat \<Rightarrow> string" where
  "getStyle align colIndex =
     (if colIndex < length align
      then (case align ! colIndex of None \<Rightarrow> [] | Some a \<Rightarrow> ''text-align:'' @ a @ '';'')
      else [])"

fun cells_html ::
  "string \<Rightarrow> (nat \<Rightarrow> (string \<times> attr) list) \<Rightarrow> nat \<Rightarrow> payload node list list
     \<Rightarrow> (payload ast \<Rightarrow> string result) \<Rightarrow> string result" where
  "cells_html tagName attrs i [] output = ok []"
| "cells_html tagName attrs i (content # others) output =
     bind_result (output (Arr content))
       (\<lambda>inner. bind_result (cells_html tagName attrs (Suc i) others output)
          (\<lambda>t. ok (htmlTag tagName inner (attrs i) True @ t)))"

fun rows_html ::
  "string option list \<Rightarrow> payload node list list list \<Rightarrow> (payload ast \<Rightarrow> string result)
     \<Rightarrow> string result" where
  "rows_html align [] output = ok []"
| "rows_html align (row # others) output =
     bind_result (cells_html ''td'' (\<lambda>c. [(''style'', AStr (getStyle align c))]) 0 row output)
       (\<lambda>cols. bind_result (rows_html align others output)
          (\<lambda>t. ok (htmlTag ''tr'' cols [] True @ t)))"

definition table_html :: htmlfn where
  "table_html n output =
     (case payload n of
        Table header align cells \<Rightarrow>
          bind_result
            (cells_html ''th''
               (\<lambda>i. [(''style'', AStr (getStyle align i)), (''scope'', AStr ''col'')]) 0 header output)
            (\<lambda>headers.
               bind_result (rows_html align cells output)
                 (\<lambda>rows.
                    let thead = htmlTag ''thead'' (htmlTag ''tr'' headers [] True) [] True;
                        tbody = htmlTag ''tbody'' rows [] True
                    in ok (htmlTag ''table'' (thead @ tbody) [] True)))
      | _ \<Rightarrow> wrong_shape)"

definition newline_html :: htmlfn where
  "newline_html n output = ok [NL]"

definition paragraph_html :: htmlfn where
  "paragraph_html = wrap_html ''div'' [(''class'', AStr ''paragraph'')]"

definition tableSeparator_html :: htmlfn where
  "tableSeparator_html n output = ok '' &vert; ''"

definition opt_attr :: "string option \<Rightarrow> attr" where
  "opt_attr v = (case v of None \<Rightarrow> ANone | Some s \<Rightarrow> AStr s)"

definition link_html :: htmlfn where
  "link_html n output =
     (case payload n of
        Link content target title \<Rightarrow>
          (let attributes = [(''href'', opt_attr (sanitizeUrl target)), (''title'', opt_attr title)]
           in bind_result (output (Arr content))
                (\<lambda>inner. ok (htmlTag ''a'' inner attributes True)))
      | _ \<Rightarrow> wrong_shape)"

definition image_html :: htmlfn where
  "image_html n output =
     (case payload n of
        Image alt target title \<Rightarrow>
          (let attributes = [(''src'', opt_attr (sanitizeUrl target)), (''alt'', AStr alt),
                             (''title'', opt_attr title)]
           in ok (htmlTag ''img'' [] attributes False))
      | _ \<Rightarrow> wrong_shape)"

definition em_html :: htmlfn where
  "em_html = wrap_html ''em'' []"

definition strong_html :: htmlfn where
  "strong_html = wrap_html ''strong'' []"

definition u_html :: htmlfn where
  "u_html = wrap_html ''u'' []"

definition del_html :: htmlfn where
  "del_html = wrap_html ''del'' []"

definition inlineCode_html :: htmlfn where
  "inlineCode_html n output =
     (case payload n of
        Text content \<Rightarrow> ok (htmlTag ''code'' (sanitizeText content) [] True)
      | _ \<Rightarrow> wrong_shape)"

definition br_html :: htmlfn where
  "br_html n output = ok ''<br>''"

definition text_html :: htmlfn where
  "text_html n output =
     (case payload n of
        Text content \<Rightarrow> ok (sanitizeText content)
      | _ \<Rightarrow> wrong_shape)"

definition mk_rule ::
  "rat \<Rightarrow> (string \<Rightarrow> 'c mstate' \<Rightarrow> string \<Rightarrow> capture option)
     \<Rightarrow> (capture \<Rightarrow> 'c mstate' \<Rightarrow> string \<Rightarrow> jsnum) option \<Rightarrow> 'c parsefn \<Rightarrow> htmlfn option
     \<Rightarrow> 'c mrule" where
  "mk_rule ord m q p h = \<lparr>order = ord, match = Some m, quality = q, parse = p, html = h\<rparr>"

text \<open>
  The entries of \<open>defaultRules\<close> in the order of the source, with the value that
  \<open>currOrder\<close> has at each. The entry \<open>Array\<close>, which has no \<open>match\<close>, is
  \<open>Array_html\<close> below.
\<close>

definition heading_rule :: "'c mrule" where
  "heading_rule =
     mk_rule 0 (blockRegex heading_R) None heading_parse (Some heading_html)"

definition nptable_rule :: "'c mrule" where
  "nptable_rule =
     mk_rule 1 (blockRegex NPTABLE_REGEX) None (parseTable False) None"

definition lheading_rule :: "'c mrule" where
  "lheading_rule =
     mk_rule 2 (blockRegex lheading_R) None lheading_parse None"

definition hr_rule :: "'c mrule" where
  "hr_rule =
     mk_rule 3 (blockRegex hr_R) None ignoreCapture (Some hr_html)"

definition codeBlock_rule :: "'c mrule" where
  "codeBlock_rule =
     mk_rule 4 (blockRegex codeBlock_R) None codeBlock_parse (Some codeBlock_html)"

definition fence_rule :: "'c mrule" where
  "fence_rule =
     mk_rule 5 (blockRegex fence_R) None fence_parse None"

definition blockQuote_rule :: "'c mrule" where
  "blockQuote_rule =
     mk_rule 6 (blockRegex blockQuote_R) None blockQuote_parse (Some blockQuote_html)"

definition list_rule :: "'c mrule" where
  "list_rule =
     mk_rule 7 list_match None list_parse (Some list_html)"

definition def_rule :: "'c mrule" where
  "def_rule =
     mk_rule 8 (blockRegex def_R) None def_parse (Some def_html)"

definition table_rule :: "'c mrule" where
  "table_rule =
     mk_rule 9 (blockRegex TABLE_REGEX) None (parseTable True) (Some table_html)"

definition newline_rule :: "'c mrule" where
  "newline_rule =
     mk_rule 10 (blockRegex newline_R) None ignoreCapture (Some newline_html)"

definition paragraph_rule :: "'c mrule" where
  "paragraph_rule =
     mk_rule 11 (blockRegex paragraph_R) None parseCaptureInline (Some paragraph_html)"

definition escape_rule :: "'c mrule" where
  "escape_rule =
     mk_rule 12 (inlineRegex escape_R) None escape_parse None"

definition tableSeparator_rule :: "'c mrule" where
  "tableSeparator_rule =
     mk_rule 13 tableSeparator_match None tableSeparator_parse (Some tableSeparator_html)"

definition autolink_rule :: "'c mrule" where
  "autolink_rule =
     mk_rule 14 (inlineRegex autolink_R) None autolink_parse None"

definition mailto_rule :: "'c mrule" where
  "mailto_rule =
     mk_rule 15 (inlineRegex mailto_R) None mailto_parse None"

definition url_rule :: "'c mrule" where
  "url_rule =
     mk_rule 16 (inlineRegex url_R) None url_parse None"

definition link_rule :: "'c mrule" where
  "link_rule =
     mk_rule 17 (inlineRegex link_R) None link_parse (Some link_html)"

definition image_rule :: "'c mrule" where
  "image_rule =
     mk_rule 18 (inlineRegex image_R) None image_parse (Some image_html)"

definition reflink_rule :: "'c mrule" where
  "reflink_rule =
     mk_rule 19 (inlineRegex reflink_R) None reflink_parse None"

definition refimage_rule :: "'c mrule" where
  "refimage_rule =
     mk_rule 20 (inlineRegex refimage_R) None refimage_parse None"

definition em_rule :: "'c mrule" where
  "em_rule =
     mk_rule 21 (inlineRegex em_R) (Some em_quality) em_parse (Some em_html)"

definition strong_rule :: "'c mrule" where
  "strong_rule =
     mk_rule 21 (inlineRegex strong_R) (Some strong_quality) parseCaptureInline (Some strong_html)"

definition u_rule :: "'c mrule" where
  "u_rule =
     mk_rule 21 (inlineRegex u_R) (Some u_quality) parseCaptureInline (Some u_html)"

definition del_rule :: "'c mrule" where
  "del_rule =
     mk_rule 22 (inlineRegex del_R) None parseCaptureInline (Some del_html)"

definition inlineCode_rule :: "'c mrule" where
  "inlineCode_rule =
     mk_rule 23 (inlineRegex inlineCode_R) None inlineCode_parse (Some inlineCode_html)"

definition br_rule :: "'c mrule" where
  "br_rule =
     mk_rule 24 (anyScopeRegex br_R) None ignoreCapture (Some br_html)"

definition text_rule :: "'c mrule" where
  "text_rule =
     mk_rule 25 (anyScopeRegex text_R) None text_parse (Some text_html)"

definition defaultRules :: "(payload, 'c) rules" where
  "defaultRules =
     [(''heading'', heading_rule),
      (''nptable'', nptable_rule),
      (''lheading'', lheading_rule),
      (''hr'', hr_rule),
      (''codeBlock'', codeBlock_rule),
      (''fence'', fence_rule),
      (''blockQuote'', blockQuote_rule),
      (''list'', list_rule),
      (''def'', def_rule),
      (''table'', table_rule),
      (''newline'', newline_rule),
      (''paragraph'', paragraph_rule),
      (''escape'', escape_rule),
      (''tableSeparator'', tableSeparator_rule),
      (''autolink'', autolink_rule),
      (''mailto'', mailto_rule),
      (''url'', url_rule),
      (''link'', link_rule),
      (''image'', image_rule),
      (''reflink'', reflink_rule),
      (''refimage'', refimage_rule),
      (''em'', em_rule),
      (''strong'', strong_rule),
      (''u'', u_rule),
      (''del'', del_rule),
      (''inlineCode'', inlineCode_rule),
      (''br'', br_rule),
      (''text'', text_rule)]"

section \<open>The output dispatcher\<close>

text \<open>
  The \<open>html\<close> function of the \<open>Array\<close> rule: consecutive nodes of type \<open>text\<close> are
  joined into one before they are given to \<open>output\<close>. \<open>pending\<close> is the content of
  the text node being joined.
\<close>

definition text_content :: "payload node \<Rightarrow> string" where
  "text_content n = (case payload n of Text s \<Rightarrow> s | _ \<Rightarrow> ''undefined'')"

definition flush_text :: "string option \<Rightarrow> (payload ast \<Rightarrow> string result) \<Rightarrow> string result" where
  "flush_text pending output =
     (case pending of
        None \<Rightarrow> ok []
      | Some content \<Rightarrow> output (One (Node (Some ''text'') (Text content))))"

fun Array_html_from ::
  "string option \<Rightarrow> payload node list \<Rightarrow> (payload ast \<Rightarrow> string result) \<Rightarrow> string result" where
  "Array_html_from pending [] output = flush_text pending output"
| "Array_html_from pending (n # arr) output =
     (if is_type ''text'' n then
        Array_html_from
          (Some ((case pending of None \<Rightarrow> [] | Some content \<Rightarrow> content) @ text_content n))
          arr output
      else
        bind_result (flush_text pending output)
          (\<lambda>a. bind_result (output (One n))
             (\<lambda>b. bind_result (Array_html_from None arr output)
                (\<lambda>c. ok (a @ b @ c)))))"

definition Array_html :: "payload node list \<Rightarrow> (payload ast \<Rightarrow> string result) \<Rightarrow> string result" where
  "Array_html arr output = Array_html_from None arr output"

fun nestedOutput ::
  "nat \<Rightarrow> (payload, 'c) rules \<Rightarrow> (payload node list \<Rightarrow> (payload ast \<Rightarrow> string result) \<Rightarrow> string result)
     \<Rightarrow> payload ast \<Rightarrow> string result" where
  "nestedOutput 0 rules arrayRuleOutput ast' = None"
| "nestedOutput (Suc fuel) rules arrayRuleOutput ast' =
     (case ast' of
        Arr nodes \<Rightarrow> arrayRuleOutput nodes (nestedOutput fuel rules arrayRuleOutput)
      | One n \<Rightarrow>
          (case ntype n of
             None \<Rightarrow> Some (Inl (TypeError ''rules[ast.type] is undefined''))
           | Some t \<Rightarrow>
               (case map_of rules t of
                  None \<Rightarrow> Some (Inl (TypeError ''rules[ast.type] is undefined''))
                | Some rule \<Rightarrow>
                    (case html rule of
                       None \<Rightarrow> Some (Inl (TypeError ''rules[ast.type][property] is not a function''))
                     | Some h \<Rightarrow> h n (nestedOutput fuel rules arrayRuleOutput)))))"

definition outputFor ::
  "(payload, 'c) rules \<Rightarrow> (payload node list \<Rightarrow> (payload ast \<Rightarrow> string result) \<Rightarrow> string result)
     \<Rightarrow> nat \<Rightarrow> payload ast \<Rightarrow> string result" where
  "outputFor rules arrayRuleOutput = (\<lambda>fuel ast'. nestedOutput fuel rules arrayRuleOutput ast')"

section \<open>The default entry points\<close>

text \<open>
  The tree that a parse returns holds the reference nodes themselves: \<open>resolve\<close> reads
  their fields back from \<open>refnodes\<close> (the type of a reference node never changes). A
  reference node is created after the nodes of its content, so the store is resolved
  from its first entry on.
\<close>

primrec resolve_payload :: "payload node list \<Rightarrow> payload \<Rightarrow> payload" where
  "resolve_payload store (RefNode i) =
     (if i < length store then payload (store ! i) else RefNode i)"
| "resolve_payload store (Heading level content) =
     Heading level (map (map_node (resolve_payload store)) content)"
| "resolve_payload store (Content content) =
     Content (map (map_node (resolve_payload store)) content)"
| "resolve_payload store (Link content target title) =
     Link (map (map_node (resolve_payload store)) content) target title"
| "resolve_payload store (ListP ordered start items) =
     ListP ordered start (map (map (map_node (resolve_payload store))) items)"
| "resolve_payload store (Table header align cells) =
     Table (map (map (map_node (resolve_payload store))) header) align
       (map (map (map (map_node (resolve_payload store)))) cells)"
| "resolve_payload store Empty = Empty"
| "resolve_payload store (Text s) = Text s"
| "resolve_payload store (CodeBlock lang s) = CodeBlock lang s"
| "resolve_payload store (Image alt target title) = Image alt target title"
| "resolve_payload store (Def d target title) = Def d target title"

definition resolve_node :: "payload node list \<Rightarrow> payload node \<Rightarrow> payload node" where
  "resolve_node store n = map_node (resolve_payload store) n"

definition resolve_store :: "payload node list \<Rightarrow> payload node list" where
  "resolve_store store = foldl (\<lambda>done n. done @ [resolve_node done n]) [] store"

definition resolve :: "payload node list \<Rightarrow> payload node list \<Rightarrow> payload node list" where
  "resolve store nodes = map (resolve_node (resolve_store store)) nodes"

definition defaultRawParse :: "nat \<Rightarrow> 'c mparser" where
  "defaultRawParse fuel source st =
     bind_result (parserFor defaultRules None fuel source st)
       (\<lambda>(nodes, st1). ok (resolve (refnodes st1) nodes, st1))"

definition defaultBlockParse :: "nat \<Rightarrow> 'c mparser" where
  "defaultBlockParse fuel source st = defaultRawParse fuel source (st\<lparr>inline := False\<rparr>)"

definition defaultInlineParse :: "nat \<Rightarrow> 'c mparser" where
  "defaultInlineParse fuel source st = defaultRawParse fuel source (st\<lparr>inline := True\<rparr>)"

definition defaultImplicitParse :: "nat \<Rightarrow> 'c mparser" where
  "defaultImplicitParse fuel source st =
     (let isBlock = test BLOCK_END_R source
      in defaultRawParse fuel source (st\<lparr>inline := \<not> isBlock\<rparr>))"

definition defaultHtmlOutput :: "nat \<Rightarrow> payload ast \<Rightarrow> string result" where
  "defaultHtmlOutput = outputFor (defaultRules :: (payload, unit) rules) Array_html"

definition markdownToHtml :: "nat \<Rightarrow> string \<Rightarrow> 'c mstate' \<Rightarrow> string result" where
  "markdownToHtml fuel source st =
     bind_result (defaultBlockParse fuel source st)
       (\<lambda>(nodes, st1). defaultHtmlOutput fuel (Arr nodes))"

text \<open>The state of a call that passes none: an object without properties.\<close>

definition empty_state :: "'c \<Rightarrow> ('p, 'c) state" where
  "empty_state c =
     \<lparr>inline = False, disableAutoBlockNewlines = False, inTable = False, list' = False,
      prevCapture = None, defs' = [], refs' = [], refnodes = [], client = c\<rparr>"

section \<open>Notions used in the statements\<close>

definition all_nl :: "string \<Rightarrow> bool" where
  "all_nl t = (\<forall>c \<in> set t. c = NL)"

text \<open>
  The order among the captures of \<open>em\<close>, \<open>strong\<close> and \<open>u\<close>: the capture \<open>c\<close> is at
  least as long as, or longer than, the capture of another rule, if that rule matched.
\<close>

definition not_longer :: "capture option \<Rightarrow> capture \<Rightarrow> bool" where
  "not_longer other c =
     (case other of None \<Rightarrow> True | Some c' \<Rightarrow> length (cfull c') \<le> length (cfull c))"

definition shorter :: "capture option \<Rightarrow> capture \<Rightarrow> bool" where
  "shorter other c =
     (case other of None \<Rightarrow> True | Some c' \<Rightarrow> length (cfull c') < length (cfull c))"





text \<open>A parser that leaves the fields of the client as they are.\<close>

definition keeps_client :: "('p, 'c) parser \<Rightarrow> bool" where
  "keeps_client p = (\<forall>source st nodes st'. p source st = Some (Inr (nodes, st')) \<longrightarrow> client st' = client st)"


text \<open>
  A rule whose \<open>parse\<close> leaves the fields of the client as they are, when the parser it
  is given for the nested content does.
\<close>

definition client_rule :: "string \<times> ('p, 'c) rule \<Rightarrow> bool" where
  "client_rule nr =
     (\<forall>c p s x s'. keeps_client p \<longrightarrow> parse (snd nr) c p s = Some (Inr (x, s')) \<longrightarrow>
        client s' = client s)"

text \<open>
  The default state \<open>{mine: 'x'}\<close>, a template that holds one field of the client:
  copying it writes that field.
\<close>

definition mine_x :: "('p, string) state \<Rightarrow> ('p, string) state" where
  "mine_x st = st\<lparr>client := ''x''\<rparr>"

subsection \<open>The text that the loop consumes\<close>

text \<open>
  A position of the matcher at the end of a line: at the end of the text, or just after a
  line feed.
\<close>

definition at_line_end :: "mstate \<Rightarrow> bool" where
  "at_line_end s = (rest s = [] \<or> prev s = Some NL)"

text \<open>
  The position \<open>s1\<close> comes after \<open>s\<close> in the same text: a piece of the text lies between
  them, and the character before \<open>s1\<close> is the last of that piece.
\<close>

definition advances :: "mstate \<Rightarrow> mstate \<Rightarrow> bool" where
  "advances s s1 =
     (\<exists>pre. rest s = pre @ rest s1 \<and> prev s1 = (if pre = [] then prev s else Some (last pre)))"








text \<open>
  A parser that returns the state in the scope it was given, and a rule whose \<open>parse\<close>
  does so after its \<open>match\<close>, when the parser it is given for the nested content does.
\<close>

definition keeps_inline :: "('p, 'c) parser \<Rightarrow> bool" where
  "keeps_inline p = (\<forall>source st nodes st'. p source st = Some (Inr (nodes, st')) \<longrightarrow> inline st' = inline st)"



text \<open>
  The captures that the loop of \<open>nestedParse\<close> chooses, in their order: the same loop,
  which returns the list of the values of \<open>capture\<close> in place of the nodes.
\<close>

fun loopCaptures :: "nat \<Rightarrow> ('p, 'c) rules \<Rightarrow> string \<Rightarrow> ('p, 'c) state \<Rightarrow> capture list result" where
  "loopCaptures 0 ruleL source st = None"
| "loopCaptures (Suc fuel) ruleL source st =
     (if source = [] then Some (Inr [])
      else if ruleL = [] then Some (Inl (TypeError ''currRule is undefined''))
      else
        (case pick_rule ruleL source st None of
           None \<Rightarrow> Some (Inl (NoMatchingRule (fst (last ruleL)) source))
         | Some (ruleType, rule, capture, q) \<Rightarrow>
             if cindex capture \<noteq> 0 then Some (Inl UnanchoredMatch)
             else
               (case parse rule capture (nestedParse fuel ruleL) st of
                  None \<Rightarrow> None
                | Some (Inl e) \<Rightarrow> Some (Inl e)
                | Some (Inr (parsed, st1)) \<Rightarrow>
                    (case loopCaptures fuel ruleL
                            (substring source (length (cfull capture)))
                            (st1\<lparr>prevCapture := Some capture\<rparr>) of
                       None \<Rightarrow> None
                     | Some (Inl e) \<Rightarrow> Some (Inl e)
                     | Some (Inr captures) \<Rightarrow> Some (Inr (capture # captures))))))"


section \<open>Evaluating the model\<close>

text \<open>
  The matcher evaluates by rewriting; the continuation of a match is looked at only
  when it is applied.
\<close>

lemma rmatch_cong: "r = r' \<Longrightarrow> s = s' \<Longrightarrow> rmatch r s k = rmatch r' s' k"
  by simp

lemmas rmatch_Rep = rmatch.simps(11)

declare rmatch.simps(11) [simp del]

lemmas matches_from_eq = matches_from.simps

declare matches_from.simps [simp del]

lemma char_of_nat_eval:
  "char_of (n::nat) =
     Char (odd n) (odd (n div 2)) (odd (n div 4)) (odd (n div 8))
          (odd (n div 16)) (odd (n div 32)) (odd (n div 64)) (odd (n div 128))"
  by (simp add: char_of_def bit_iff_odd_drop_bit drop_bit_eq_div)

lemmas re_defs = one_def oneof_def noneof_def anychar_def dot_def space_def nonspace_def digit_def
  wordchar_def star_def plus_def opt_def lstar_def lplus_def atleast_def lit_def dec_max_def
  clear_groups_def sp_def blank_tail_def escaped_def em_plain_def rmatch_Rep matches_from_eq

lemmas ch_defs = NL_def CR_def TAB_def FF_def VT_def NBSP_def DQUOTE_def SQUOTE_def BSLASH_def
  BACKTICK_def is_digit_def is_alnum_def is_word_char_def is_space_def is_line_terminator_def
  is_high_def

lemmas pat_defs = heading_R_def NPTABLE_REGEX_def TABLE_REGEX_def lheading_R_def hr_R_def
  codeBlock_R_def fence_R_def blockQuote_R_def LIST_BULLET_def LIST_ITEM_PREFIX_def
  LIST_ITEM_PREFIX_R_def LIST_ITEM_R_def BLOCK_END_R_def LIST_R_def LIST_LOOKBEHIND_R_def def_R_def
  newline_R_def paragraph_R_def escape_R_def tableSeparator_R_def autolink_R_def mailto_R_def
  url_R_def link_R_def image_R_def reflink_R_def refimage_R_def em_R_def strong_R_def u_R_def
  del_R_def inlineCode_R_def br_R_def text_R_def LINK_INSIDE_def LINK_HREF_AND_TITLE_def

lemmas rule_defs = heading_rule_def nptable_rule_def lheading_rule_def hr_rule_def
  codeBlock_rule_def fence_rule_def blockQuote_rule_def list_rule_def def_rule_def table_rule_def
  newline_rule_def paragraph_rule_def escape_rule_def tableSeparator_rule_def autolink_rule_def
  mailto_rule_def url_rule_def link_rule_def image_rule_def reflink_rule_def refimage_rule_def
  em_rule_def strong_rule_def u_rule_def del_rule_def inlineCode_rule_def br_rule_def
  text_rule_def mk_rule_def

lemmas pick_defs = try_rule_def rule_capture_def prevCaptureStr_def blockRegex_def inlineRegex_def anyScopeRegex_def list_match_def
  tableSeparator_match_def exec_def num_le_def best_quality_def group_def cap_def

lemmas parse_defs = defaultBlockParse_def defaultInlineParse_def defaultRawParse_def parserFor_def
  outerParse_def populateInitialState_def ok_def bind_result_def typed_def substring_def
  resolve_def resolve_store_def resolve_node_def Let_def

lemmas output_defs = defaultHtmlOutput_def outputFor_def Array_html_def is_type_def flush_text_def
  text_content_def ok_def bind_result_def

lemma ruleList_defaultRules: "ruleList defaultRules = defaultRules"
  by (simp add: ruleList_def defaultRules_def rule_defs rule_before_def)

lemma defaultRules_nonempty: "defaultRules \<noteq> []"
  by (simp add: defaultRules_def)

subsection \<open>The empty source\<close>

lemma pick_blank:
  "\<not> inline st \<Longrightarrow> prevCapture st = None \<Longrightarrow>
   pick_rule defaultRules [NL, NL] st None
     = Some (''newline'', newline_rule, \<lparr>cindex = 0, cfull = [NL, NL], cgroups = []\<rparr>, Some 0)"
  apply (simp add: defaultRules_def)
  apply (simp add: pick_defs rule_defs pat_defs re_defs ch_defs cong: rmatch_cong)
  done

lemma preprocess_blank: "preprocess [NL, NL] = [NL, NL]"
  by (simp add: preprocess_def replace_g_def CR_NEWLINE_R_def TAB_R_def FORMFEED_R_def re_defs
      ch_defs cong: rmatch_cong)

lemma parse_empty_source:
  "defaultBlockParse (Suc (Suc fuel)) [] (empty_state c)
     = Some (Inr ([Node (Some ''newline'') Empty],
           (empty_state c)\<lparr>prevCapture := Some \<lparr>cindex = 0, cfull = [NL, NL], cgroups = []\<rparr>\<rparr>))"
  by (simp add: parse_defs ruleList_defaultRules empty_state_def preprocess_blank pick_blank
      defaultRules_nonempty newline_rule_def mk_rule_def ignoreCapture_def)

lemma html_newline:
  "defaultHtmlOutput (Suc (Suc fuel)) (Arr [Node (Some ''newline'') Empty]) = Some (Inr [NL])"
  by (simp add: output_defs defaultRules_def newline_rule_def mk_rule_def newline_html_def)

text \<open>
  Claim C10. Parsing the empty string in block scope does not give an empty tree: for
  every fuel of at least two, \<open>defaultBlockParse\<close> of the empty string returns one
  node, of type \<open>newline\<close> (the rule \<open>newline\<close> consumes the two line feeds that
  \<open>outerParse\<close> appends), and \<open>markdownToHtml\<close> of the empty string returns a line feed.
\<close>

theorem empty_source_is_one_newline:
  "defaultBlockParse (Suc (Suc fuel)) [] (empty_state c)
     = Some (Inr ([Node (Some ''newline'') Empty],
           (empty_state c)\<lparr>prevCapture := Some \<lparr>cindex = 0, cfull = [NL, NL], cgroups = []\<rparr>\<rparr>))
   \<and> markdownToHtml (Suc (Suc fuel)) [] (empty_state c) = Some (Inr [NL])"
  by (simp add: markdownToHtml_def parse_empty_source html_newline bind_result_def)

subsection \<open>sanitizeText\<close>

text \<open>
  Claim C5. \<open>sanitizeText\<close> is to replace each of the seven characters of its table.
  Its pattern \<open>SANITIZE_TEXT_R\<close> matches five of them only: a slash and a backtick, which
  the table \<open>SANITIZE_TEXT_CODES\<close> maps to \<open>&#x2F;\<close> and \<open>&#96;\<close>, come out as they went
  in.
\<close>

theorem sanitizeText_keeps_slash_and_backtick:
  "sanitizeText (''/'' @ [BACKTICK]) = ''/'' @ [BACKTICK]
   \<and> map_of SANITIZE_TEXT_CODES ''/'' = Some ''&#x2F;''
   \<and> map_of SANITIZE_TEXT_CODES [BACKTICK] = Some ''&#96;''"
  by (simp add: sanitizeText_def replace_g_def SANITIZE_TEXT_R_def SANITIZE_TEXT_CODES_def
      re_defs ch_defs cong: rmatch_cong)

subsection \<open>A heading\<close>

lemma list_match_inline:
  "inline st \<Longrightarrow> \<not> list' st \<Longrightarrow> list_match source st p = None"
  by (simp add: list_match_def split: option.split)

lemmas inline_pick_defs = try_rule_def rule_capture_def prevCaptureStr_def blockRegex_def inlineRegex_def anyScopeRegex_def
  list_match_inline tableSeparator_match_def exec_def num_le_def best_quality_def group_def cap_def

lemmas preprocess_defs = preprocess_def replace_g_def CR_NEWLINE_R_def TAB_R_def FORMFEED_R_def

lemma pick_heading_hello:
  "\<not> inline st \<Longrightarrow>
   pick_rule defaultRules ''# Hello\<newline>\<newline>\<newline>\<newline>'' st None
     = Some (''heading'', heading_rule,
         \<lparr>cindex = 0, cfull = ''# Hello\<newline>\<newline>\<newline>\<newline>'',
          cgroups = [(2, '' Hello''), (Suc 0, ''#'')]\<rparr>, Some 0)"
  apply (simp add: defaultRules_def)
  apply (simp add: pick_defs rule_defs pat_defs re_defs ch_defs cong: rmatch_cong)
  done

lemma pick_text_hello:
  "inline st \<Longrightarrow> \<not> inTable st \<Longrightarrow> \<not> list' st \<Longrightarrow>
   pick_rule defaultRules ''Hello'' st None
     = Some (''text'', text_rule, \<lparr>cindex = 0, cfull = ''Hello'', cgroups = []\<rparr>, Some 0)"
  apply (simp add: defaultRules_def)
  apply (simp add: inline_pick_defs rule_defs pat_defs re_defs ch_defs cong: rmatch_cong)
  done

lemma preprocess_hello:
  "preprocess ''# Hello\<newline>\<newline>\<newline>\<newline>'' = ''# Hello\<newline>\<newline>\<newline>\<newline>''"
  by (simp add: preprocess_defs re_defs ch_defs cong: rmatch_cong)

lemma parse_hello:
  "defaultBlockParse (Suc (Suc (Suc fuel))) ''# Hello\<newline>\<newline>'' (empty_state c)
     = Some (Inr ([Node (Some ''heading'') (Heading (Suc 0) [Node (Some ''text'') (Text ''Hello'')])],
           (empty_state c)\<lparr>prevCapture :=
              Some \<lparr>cindex = 0, cfull = ''# Hello\<newline>\<newline>\<newline>\<newline>'',
                    cgroups = [(2, '' Hello''), (Suc 0, ''#'')]\<rparr>\<rparr>))"
  by (simp add: parse_defs ruleList_defaultRules empty_state_def preprocess_hello
      pick_heading_hello pick_text_hello defaultRules_nonempty heading_rule_def text_rule_def
      mk_rule_def heading_parse_def text_parse_def parseInline_def group_def cap_def trim_def
      ch_defs)

lemma html_hello:
  "defaultHtmlOutput (Suc (Suc (Suc (Suc fuel))))
      (Arr [Node (Some ''heading'') (Heading (Suc 0) [Node (Some ''text'') (Text ''Hello'')])])
     = Some (Inr ''<h1>Hello</h1>'')"
  by (simp add: output_defs defaultRules_def heading_rule_def text_rule_def mk_rule_def
      heading_html_def text_html_def htmlTag_def sanitizeText_def replace_g_def
      SANITIZE_TEXT_R_def re_defs ch_defs cong: rmatch_cong)

lemma markdownToHtml_hello:
  "markdownToHtml (Suc (Suc (Suc (Suc fuel)))) ''# Hello\<newline>\<newline>'' (empty_state c)
     = Some (Inr ''<h1>Hello</h1>'')"
  by (simp add: markdownToHtml_def parse_hello html_hello bind_result_def)

text \<open>
  Claim C6 says that \<open>markdownToHtml\<close> of a heading line and a blank line returns the
  \<open>h1\<close> element followed by two line feeds. The pattern of the rule \<open>heading\<close> ends in
  \<open>(?:\n *)+\n\<close>, which takes the blank lines after the heading with it (the two of
  the source and the two that \<open>outerParse\<close> appends), so no \<open>newline\<close> node follows the
  heading and the result is the element alone.
\<close>

theorem heading_example_counterexample:
  "markdownToHtml (Suc (Suc (Suc (Suc 0)))) ''# Hello\<newline>\<newline>'' (empty_state ())
     \<noteq> Some (Inr ''<h1>Hello</h1>\<newline>\<newline>'')"
  by (simp add: markdownToHtml_hello)

text \<open>
  Claim C6, amended: with any fuel of at least four, \<open>markdownToHtml\<close> of
  \<open># Hello\<close> and a blank line returns exactly \<open><h1>Hello</h1>\<close>.
\<close>

theorem heading_example:
  "markdownToHtml (Suc (Suc (Suc (Suc fuel)))) ''# Hello\<newline>\<newline>'' (empty_state c)
     = Some (Inr ''<h1>Hello</h1>'')"
  by (rule markdownToHtml_hello)

subsection \<open>A link with a script target\<close>

lemma pick_paragraph_link:
  "\<not> inline st \<Longrightarrow> prevCapture st = None \<Longrightarrow>
   pick_rule defaultRules ''[a](javascript:alert(1))\<newline>\<newline>'' st None
     = Some (''paragraph'', paragraph_rule,
         \<lparr>cindex = 0, cfull = ''[a](javascript:alert(1))\<newline>\<newline>'',
          cgroups = [(Suc 0, ''[a](javascript:alert(1))'')]\<rparr>, Some 0)"
  apply (simp add: defaultRules_def)
  apply (simp add: pick_defs rule_defs pat_defs re_defs ch_defs cong: rmatch_cong)
  done

lemma pick_link:
  "inline st \<Longrightarrow> \<not> inTable st \<Longrightarrow> \<not> list' st \<Longrightarrow>
   pick_rule defaultRules ''[a](javascript:alert(1))'' st None
     = Some (''link'', link_rule,
         \<lparr>cindex = 0, cfull = ''[a](javascript:alert(1))'',
          cgroups = [(2, ''javascript:alert(1)''), (Suc 0, ''a'')]\<rparr>, Some 0)"
  apply (simp add: defaultRules_def)
  apply (simp add: inline_pick_defs rule_defs pat_defs re_defs ch_defs cong: rmatch_cong)
  done

lemma pick_text_a:
  "inline st \<Longrightarrow> \<not> inTable st \<Longrightarrow> \<not> list' st \<Longrightarrow>
   pick_rule defaultRules ''a'' st None
     = Some (''text'', text_rule, \<lparr>cindex = 0, cfull = ''a'', cgroups = []\<rparr>, Some 0)"
  apply (simp add: defaultRules_def)
  apply (simp add: inline_pick_defs rule_defs pat_defs re_defs ch_defs cong: rmatch_cong)
  done

lemma preprocess_link:
  "preprocess ''[a](javascript:alert(1))\<newline>\<newline>'' = ''[a](javascript:alert(1))\<newline>\<newline>''"
  by (simp add: preprocess_defs re_defs ch_defs cong: rmatch_cong)

lemma unescapeUrl_script: "unescapeUrl ''javascript:alert(1)'' = ''javascript:alert(1)''"
  by (simp add: unescapeUrl_def replace_g_def UNESCAPE_URL_R_def re_defs ch_defs
      cong: rmatch_cong)

lemma parse_link:
  "defaultBlockParse (Suc (Suc (Suc (Suc fuel)))) ''[a](javascript:alert(1))'' (empty_state c)
     = Some (Inr ([Node (Some ''paragraph'')
                     (Content [Node (Some ''link'')
                        (Link [Node (Some ''text'') (Text ''a'')]
                              (Some ''javascript:alert(1)'') None)])],
           (empty_state c)\<lparr>prevCapture :=
              Some \<lparr>cindex = 0, cfull = ''[a](javascript:alert(1))\<newline>\<newline>'',
                    cgroups = [(Suc 0, ''[a](javascript:alert(1))'')]\<rparr>\<rparr>))"
  by (simp add: parse_defs ruleList_defaultRules empty_state_def preprocess_link
      pick_paragraph_link pick_link pick_text_a defaultRules_nonempty paragraph_rule_def
      link_rule_def text_rule_def mk_rule_def parseCaptureInline_def link_parse_def text_parse_def
      parseInline_def group_def cap_def unescapeUrl_script NL_def)

lemma sanitizeUrl_script: "sanitizeUrl (Some ''javascript:alert(1)'') = None"
  by (simp add: sanitizeUrl_def sanitizeUrlWith_def decodeURIComponent_def prot_of_def
      prot_char_def toLowerCase_def toLowerCaseChar_def indexOf_def ch_defs char_of_nat_eval)

lemma html_link:
  "defaultHtmlOutput (Suc (Suc (Suc (Suc (Suc (Suc fuel))))))
      (Arr [Node (Some ''paragraph'')
              (Content [Node (Some ''link'')
                 (Link [Node (Some ''text'') (Text ''a'')] (Some ''javascript:alert(1)'') None)])])
     = Some (Inr (''<div class='' @ [DQUOTE] @ ''paragraph'' @ [DQUOTE] @ ''><a>a</a></div>''))"
  by (simp add: output_defs defaultRules_def paragraph_rule_def link_rule_def text_rule_def
      mk_rule_def paragraph_html_def wrap_html_def link_html_def text_html_def htmlTag_def
      sanitizeUrl_script opt_attr_def sanitizeText_def replace_g_def SANITIZE_TEXT_R_def re_defs
      ch_defs cong: rmatch_cong)

lemma markdownToHtml_link:
  "markdownToHtml (Suc (Suc (Suc (Suc (Suc (Suc fuel)))))) ''[a](javascript:alert(1))''
      (empty_state c)
     = Some (Inr (''<div class='' @ [DQUOTE] @ ''paragraph'' @ [DQUOTE] @ ''><a>a</a></div>''))"
  by (simp add: markdownToHtml_def parse_link html_link bind_result_def)

text \<open>
  Claim C7 says that the anchor of a link whose target is a script has an empty
  \<open>href\<close> attribute. \<open>sanitizeUrl\<close> returns \<open>null\<close> for the target, and \<open>htmlTag\<close>
  leaves an attribute without a value out: the text \<open>href=\<close> does not occur in the
  result.
\<close>

theorem script_link_counterexample:
  "markdownToHtml (Suc (Suc (Suc (Suc (Suc (Suc 0)))))) ''[a](javascript:alert(1))''
      (empty_state ())
     = Some (Inr (''<div class='' @ [DQUOTE] @ ''paragraph'' @ [DQUOTE] @ ''><a>a</a></div>''))
   \<and> indexOf (''<div class='' @ [DQUOTE] @ ''paragraph'' @ [DQUOTE] @ ''><a>a</a></div>'')
         ''href='' = None"
  by (simp add: markdownToHtml_link indexOf_def ch_defs)

text \<open>
  Claim C7, amended: with any fuel of at least six, \<open>markdownToHtml\<close> of the link
  returns a paragraph that holds the anchor \<open><a>a</a>\<close>, which has no \<open>href\<close>
  attribute: the target is sanitized to \<open>null\<close> and the attribute is left out.
\<close>

theorem script_link_has_no_href:
  "markdownToHtml (Suc (Suc (Suc (Suc (Suc (Suc fuel)))))) ''[a](javascript:alert(1))''
      (empty_state c)
     = Some (Inr (''<div class='' @ [DQUOTE] @ ''paragraph'' @ [DQUOTE] @ ''><a>a</a></div>''))
   \<and> sanitizeUrl (Some ''javascript:alert(1)'') = None
   \<and> htmlTag ''a'' ''a'' [(''href'', opt_attr None), (''title'', opt_attr None)] True = ''<a>a</a>''"
  by (simp add: markdownToHtml_link sanitizeUrl_script htmlTag_def opt_attr_def)

subsection \<open>The test of defaultImplicitParse\<close>

lemma clear_no_groups [simp]: "clear_groups [] s = s"
  by (simp add: clear_groups_def)

lemma star_nl_eol:
  "(rmatch (Rep True 0 None (Chr (\<lambda>x. x = NL))) s (\<lambda>s'. rmatch (Eol False) s' Some) = None)
     = (\<not> all_nl (rest s))"
proof (induction "rest s" arbitrary: s)
  case Nil
  then show ?case
    by (simp add: rmatch_Rep all_nl_def split: option.split)
next
  case (Cons c cs)
  from Cons(2) have r: "rest s = c # cs" by simp
  have ih: "(rmatch (Rep True 0 None (Chr (\<lambda>x. x = NL))) (s\<lparr>prev := Some c, rest := cs\<rparr>)
              (\<lambda>s'. rmatch (Eol False) s' Some) = None) = (\<not> all_nl cs)"
    using Cons(1)[of "s\<lparr>prev := Some c, rest := cs\<rparr>"] by simp
  show ?case
    using ih by (subst rmatch_Rep) (auto simp: r all_nl_def dec_max_def split: option.split)
qed

lemma block_end_at:
  "(rmatch BLOCK_END_R s Some = None) = (\<not> (\<exists>t. rest s = NL # NL # t \<and> all_nl t))"
proof -
  have "rmatch BLOCK_END_R s Some
        = rmatch (Rep True 2 None (Chr (\<lambda>x. x = NL))) s (\<lambda>s'. rmatch (Eol False) s' Some)"
    by (simp add: BLOCK_END_R_def atleast_def one_def)
  also have "(\<dots> = None) = (\<not> (\<exists>t. rest s = NL # NL # t \<and> all_nl t))"
  proof (cases "rest s")
    case Nil
    then show ?thesis by (simp add: rmatch_Rep[of True 2] cong: rmatch_cong)
  next
    case (Cons a as)
    note outer = Cons
    show ?thesis
    proof (cases as)
      case Nil
      then show ?thesis
        using outer
        by (simp add: rmatch_Rep[of True 2] rmatch_Rep[of True "Suc 0"] dec_max_def
            cong: rmatch_cong)
    next
      case (Cons b bs)
      then show ?thesis
        using outer
        by (simp add: rmatch_Rep[of True 2] rmatch_Rep[of True "Suc 0"] dec_max_def star_nl_eol
            cong: rmatch_cong)
    qed
  qed
  finally show ?thesis .
qed

lemma exec_block_end:
  "(exec_from BLOCK_END_R p i s = None) = (\<not> suffix [NL, NL] s)"
proof (induction s arbitrary: p i)
  case Nil
  have "rmatch BLOCK_END_R \<lparr>prev = p, rest = [], caps = []\<rparr> Some = None"
    using block_end_at[of "\<lparr>prev = p, rest = [], caps = []\<rparr>"] by simp
  then show ?case by (simp add: suffix_def)
next
  case (Cons c cs)
  let ?s = "\<lparr>prev = p, rest = c # cs, caps = []\<rparr>"
  have here: "(rmatch BLOCK_END_R ?s Some = None) = (\<not> (\<exists>t. c # cs = NL # NL # t \<and> all_nl t))"
    using block_end_at[of ?s] by simp
  have nl: "all_nl t \<Longrightarrow> suffix [NL, NL] (NL # NL # t)" for t
    by (induction t rule: rev_induct) (auto simp: all_nl_def suffix_def)
  show ?case
  proof (cases "rmatch BLOCK_END_R ?s Some")
    case None
    then have no: "\<not> (\<exists>t. c # cs = NL # NL # t \<and> all_nl t)" using here by simp
    have "suffix [NL, NL] (c # cs) = suffix [NL, NL] cs"
      using no by (auto simp: suffix_Cons all_nl_def)
    then show ?thesis using None Cons.IH by simp
  next
    case (Some a)
    then obtain t where "c # cs = NL # NL # t" "all_nl t" using here by auto
    then show ?thesis using Some nl by simp
  qed
qed

lemma test_BLOCK_END_R: "test BLOCK_END_R s = suffix [NL, NL] s"
  by (simp add: test_def exec_def exec_block_end)

text \<open>The source of the counterexample: an empty line, a line \<open>a\<close> and an empty line.\<close>

lemma pick_newline_a:
  "\<not> inline st \<Longrightarrow> prevCapture st = None \<Longrightarrow>
   pick_rule defaultRules ''\<newline>a\<newline>\<newline>\<newline>\<newline>'' st None
     = Some (''newline'', newline_rule, \<lparr>cindex = 0, cfull = ''\<newline>'', cgroups = []\<rparr>, Some 0)"
  apply (simp add: defaultRules_def)
  apply (simp add: pick_defs rule_defs pat_defs re_defs ch_defs cong: rmatch_cong)
  done

lemma pick_paragraph_a:
  "\<not> inline st \<Longrightarrow> prevCapture st = Some \<lparr>cindex = 0, cfull = ''\<newline>'', cgroups = []\<rparr> \<Longrightarrow>
   pick_rule defaultRules ''a\<newline>\<newline>\<newline>\<newline>'' st None
     = Some (''paragraph'', paragraph_rule,
         \<lparr>cindex = 0, cfull = ''a\<newline>\<newline>\<newline>\<newline>'', cgroups = [(Suc 0, ''a'')]\<rparr>, Some 0)"
  apply (simp add: defaultRules_def)
  apply (simp add: pick_defs rule_defs pat_defs re_defs ch_defs cong: rmatch_cong)
  done

lemma pick_text_newline_a:
  "inline st \<Longrightarrow> \<not> inTable st \<Longrightarrow> \<not> list' st \<Longrightarrow>
   pick_rule defaultRules ''\<newline>a\<newline>\<newline>'' st None
     = Some (''text'', text_rule, \<lparr>cindex = 0, cfull = ''\<newline>a'', cgroups = []\<rparr>, Some 0)"
  apply (simp add: defaultRules_def)
  apply (simp add: inline_pick_defs rule_defs pat_defs re_defs ch_defs cong: rmatch_cong)
  done

lemma pick_text_blank:
  "inline st \<Longrightarrow> \<not> inTable st \<Longrightarrow> \<not> list' st \<Longrightarrow>
   pick_rule defaultRules ''\<newline>\<newline>'' st None
     = Some (''text'', text_rule, \<lparr>cindex = 0, cfull = ''\<newline>\<newline>'', cgroups = []\<rparr>, Some 0)"
  apply (simp add: defaultRules_def)
  apply (simp add: inline_pick_defs rule_defs pat_defs re_defs ch_defs cong: rmatch_cong)
  done

lemma preprocess_newline_a:
  "preprocess ''\<newline>a\<newline>\<newline>\<newline>\<newline>'' = ''\<newline>a\<newline>\<newline>\<newline>\<newline>''"
  "preprocess ''\<newline>a\<newline>\<newline>'' = ''\<newline>a\<newline>\<newline>''"
  by (simp_all add: preprocess_defs re_defs ch_defs cong: rmatch_cong)

lemma block_parse_newline_a:
  "defaultRawParse (Suc (Suc (Suc (Suc fuel)))) ''\<newline>a\<newline>\<newline>'' ((empty_state c)\<lparr>inline := False\<rparr>)
     = Some (Inr ([Node (Some ''newline'') Empty,
                   Node (Some ''paragraph'') (Content [Node (Some ''text'') (Text ''a'')])],
           (empty_state c)\<lparr>prevCapture :=
              Some \<lparr>cindex = 0, cfull = ''a\<newline>\<newline>\<newline>\<newline>'', cgroups = [(Suc 0, ''a'')]\<rparr>\<rparr>))"
  by (simp add: parse_defs ruleList_defaultRules empty_state_def preprocess_newline_a
      pick_newline_a pick_paragraph_a pick_text_a defaultRules_nonempty newline_rule_def
      paragraph_rule_def text_rule_def mk_rule_def ignoreCapture_def parseCaptureInline_def
      text_parse_def parseInline_def group_def cap_def NL_def)

lemma inline_parse_newline_a:
  "defaultRawParse (Suc (Suc (Suc fuel))) ''\<newline>a\<newline>\<newline>'' ((empty_state c)\<lparr>inline := True\<rparr>)
     = Some (Inr ([Node (Some ''text'') (Text ''\<newline>a''), Node (Some ''text'') (Text ''\<newline>\<newline>'')],
           (empty_state c)\<lparr>inline := True, prevCapture :=
              Some \<lparr>cindex = 0, cfull = ''\<newline>\<newline>'', cgroups = []\<rparr>\<rparr>))"
  by (simp add: parse_defs ruleList_defaultRules empty_state_def preprocess_newline_a
      pick_text_newline_a pick_text_blank defaultRules_nonempty text_rule_def mk_rule_def
      text_parse_def NL_def)

lemma spec_test_newline_a: "\<not> test SPEC_BLOCK_END_R ''\<newline>a\<newline>\<newline>''"
  by (simp add: test_def exec_def SPEC_BLOCK_END_R_def re_defs ch_defs cong: rmatch_cong)

text \<open>
  Claim C8 says that \<open>defaultImplicitParse\<close> tests the source against \<open>^.*\n{2,}$\<close>.
  That pattern needs everything before the final line feeds to be on one line; the
  pattern of the code, \<open>BLOCK_END_R\<close>, is \<open>\n{2,}$\<close>. For the source made of an empty
  line, a line \<open>a\<close> and an empty line the code parses in block scope, while the pattern
  of the claim does not match, which would make the parse inline.
\<close>

theorem implicit_parse_counterexample:
  "defaultImplicitParse (Suc (Suc (Suc (Suc 0)))) ''\<newline>a\<newline>\<newline>'' (empty_state ())
     \<noteq> defaultRawParse (Suc (Suc (Suc (Suc 0)))) ''\<newline>a\<newline>\<newline>''
         ((empty_state ())\<lparr>inline := \<not> test SPEC_BLOCK_END_R ''\<newline>a\<newline>\<newline>''\<rparr>)"
  by (simp add: defaultImplicitParse_def test_BLOCK_END_R spec_test_newline_a
      block_parse_newline_a inline_parse_newline_a suffix_def NL_def)

text \<open>
  Claim C8, amended: for every source, \<open>defaultImplicitParse\<close> sets \<open>inline\<close> to the
  negation of the test of \<open>\n{2,}$\<close> against the source, that is, \<open>inline\<close> is true
  exactly when the source does not end in two line feeds, and then parses with the
  default rules.
\<close>

theorem implicit_parse_scope:
  "defaultImplicitParse fuel source st
     = defaultRawParse fuel source (st\<lparr>inline := \<not> suffix [NL, NL] source\<rparr>)
   \<and> test BLOCK_END_R source = suffix [NL, NL] source"
  by (simp add: defaultImplicitParse_def test_BLOCK_END_R)

subsection \<open>sanitizeUrl\<close>

lemma indexOf_from_ge: "indexOf_from s pat i = Some j \<Longrightarrow> i \<le> j"
  by (induction s arbitrary: i) (auto split: if_splits dest: Suc_leD)

lemma indexOf_zero: "(indexOf s pat = Some 0) = prefix pat s"
proof (cases s)
  case Nil
  then show ?thesis by (auto simp: indexOf_def)
next
  case (Cons c cs)
  have "indexOf_from cs pat (Suc 0) \<noteq> Some 0"
    using indexOf_from_ge[of cs pat "Suc 0" 0] by auto
  then show ?thesis using Cons by (simp add: indexOf_def)
qed

lemma sanitizeUrl_examples:
  "sanitizeUrl (Some ''a%AFc'') = None"
  "sanitizeUrl (Some ''http://e.com/a%20b'') = Some ''http://e.com/a%20b''"
  "sanitizeUrl (Some ''JaVa%0Ascript:x'') = None"
  by (simp_all add: sanitizeUrl_def sanitizeUrlWith_def decodeURIComponent_def prot_of_def
      prot_char_def toLowerCase_def toLowerCaseChar_def indexOf_def ch_defs char_of_nat_eval
      hexval_def leading_ones_def utf8_value_def is_continuation_def)

lemma char_of_eq_code: "n < 256 \<Longrightarrow> (char_of (n::nat) = c) = (n = of_char c)"
proof
  assume "n < 256" "char_of n = c"
  then have "of_char c = n mod 256" by (simp add: of_char_of [symmetric] del: of_char_of)
  then show "n = of_char c" using \<open>n < 256\<close> by simp
next
  assume "n = of_char c"
  then show "char_of n = c" by simp
qed

lemma prot_char_codes:
  "prot_char n =
     (48 \<le> n \<and> n \<le> 57 \<or> 65 \<le> n \<and> n \<le> 90 \<or> 97 \<le> n \<and> n \<le> 122 \<or> n = 47 \<or> n = 58)"
proof (cases "n < 128")
  case True
  then have "n < 256" by simp
  show ?thesis
    unfolding prot_char_def is_alnum_def
    using True by (simp add: char_of_eq_code[OF \<open>n < 256\<close>]) arith
next
  case False
  then show ?thesis by (simp add: prot_char_def)
qed

lemma lower_code:
  "prot_char n \<Longrightarrow>
   toLowerCaseChar (char_of n) = char_of (if 65 \<le> n \<and> n \<le> 90 then n + 32 else n)"
  by (auto simp: prot_char_def toLowerCaseChar_def Let_def of_char_of)

lemma prot_of_codes:
  "prot_of decoded =
     map (\<lambda>n. char_of (if 65 \<le> n \<and> n \<le> 90 then n + 32 else n))
       (filter (\<lambda>n. 48 \<le> n \<and> n \<le> 57 \<or> 65 \<le> n \<and> n \<le> 90 \<or> 97 \<le> n \<and> n \<le> 122
                     \<or> n = 47 \<or> n = 58) decoded)"
proof -
  have "prot_of decoded = map (\<lambda>n. toLowerCaseChar (char_of n)) (filter prot_char decoded)"
    by (simp add: prot_of_def toLowerCase_def)
  also have "\<dots> = map (\<lambda>n. char_of (if 65 \<le> n \<and> n \<le> 90 then n + 32 else n)) (filter prot_char decoded)"
    by (rule map_cong) (auto simp: lower_code simp del: char_of_nat)
  also have "filter prot_char decoded =
     filter (\<lambda>n. 48 \<le> n \<and> n \<le> 57 \<or> 65 \<le> n \<and> n \<le> 90 \<or> 97 \<le> n \<and> n \<le> 122 \<or> n = 47 \<or> n = 58) decoded"
    by (rule filter_cong) (simp_all add: prot_char_codes)
  finally show ?thesis .
qed

text \<open>
  Claim C4. \<open>sanitizeUrl\<close> returns \<open>null\<close> for \<open>null\<close>, \<open>null\<close> when the decoding of the
  percent escapes fails, \<open>null\<close> when the decoded text, stripped of every character
  outside \<open>[A-Za-z0-9/:]\<close> and put in lower case, begins with \<open>javascript:\<close>,
  \<open>vbscript:\<close> or \<open>data:\<close>, and its argument unchanged in every other case; this for
  every decoding function, and so for \<open>decodeURIComponent\<close>. The stripped text in lower
  case, \<open>prot_of\<close>, is given by the code points: those of the digits (48 to 57), of the
  capital letters (65 to 90), of the small letters (97 to 122), of the slash (47) and of
  the colon (58) stay, in their order, and a capital letter becomes the small one, 32
  further. In the three examples the decoding fails (\<open>%AF\<close> is not the start of a UTF-8
  sequence), the argument is returned with its escape, and the line feed \<open>%0A\<close> and the
  capital letters do not hide the scheme.
\<close>

theorem sanitizeUrl_cases:
  "sanitizeUrlWith decode url =
     (case url of
        None \<Rightarrow> None
      | Some u \<Rightarrow>
          (case decode u of
             None \<Rightarrow> None
           | Some decoded \<Rightarrow>
               if prefix ''javascript:'' (prot_of decoded)
                  \<or> prefix ''vbscript:'' (prot_of decoded)
                  \<or> prefix ''data:'' (prot_of decoded)
               then None else Some u))
   \<and> sanitizeUrl url = sanitizeUrlWith decodeURIComponent url
   \<and> prot_of decoded =
       map (\<lambda>n. char_of (if 65 \<le> n \<and> n \<le> 90 then n + 32 else n))
         (filter (\<lambda>n. 48 \<le> n \<and> n \<le> 57 \<or> 65 \<le> n \<and> n \<le> 90 \<or> 97 \<le> n \<and> n \<le> 122
                       \<or> n = 47 \<or> n = 58) decoded)
   \<and> sanitizeUrl (Some ''a%AFc'') = None
   \<and> sanitizeUrl (Some ''http://e.com/a%20b'') = Some ''http://e.com/a%20b''
   \<and> sanitizeUrl (Some ''JaVa%0Ascript:x'') = None"
proof (intro conjI)
  show "sanitizeUrlWith decode url =
     (case url of
        None \<Rightarrow> None
      | Some u \<Rightarrow>
          (case decode u of
             None \<Rightarrow> None
           | Some decoded \<Rightarrow>
               if prefix ''javascript:'' (prot_of decoded)
                  \<or> prefix ''vbscript:'' (prot_of decoded)
                  \<or> prefix ''data:'' (prot_of decoded)
               then None else Some u))"
    by (simp add: sanitizeUrlWith_def indexOf_zero split: option.split)
  show "sanitizeUrl url = sanitizeUrlWith decodeURIComponent url"
    by (simp add: sanitizeUrl_def)
  show "prot_of decoded =
       map (\<lambda>n. char_of (if 65 \<le> n \<and> n \<le> 90 then n + 32 else n))
         (filter (\<lambda>n. 48 \<le> n \<and> n \<le> 57 \<or> 65 \<le> n \<and> n \<le> 90 \<or> 97 \<le> n \<and> n \<le> 122
                       \<or> n = 47 \<or> n = 58) decoded)"
    by (rule prot_of_codes)
qed (rule sanitizeUrl_examples)+

subsection \<open>The choice among em, strong and u\<close>

lemma tenth_cmp:
  fixes a b i j :: nat
  assumes "i < 10" "j < 10"
  shows "((of_nat a :: rat) + of_nat i / 10 \<le> of_nat b + of_nat j / 10)
           = (a < b \<or> (a = b \<and> i \<le> j))"
proof -
  have e: "(of_nat x :: rat) + of_nat y / 10 = of_nat (10 * x + y) / 10" for x y :: nat
    by (simp add: add_divide_distrib)
  have "((of_nat a :: rat) + of_nat i / 10 \<le> of_nat b + of_nat j / 10)
        = ((of_nat (10 * a + i) :: rat) \<le> of_nat (10 * b + j))"
    unfolding e by (simp only: divide_le_cancel) simp
  also have "\<dots> = (10 * a + i \<le> 10 * b + j)"
    by (rule of_nat_le_iff)
  also have "\<dots> = (a < b \<or> (a = b \<and> i \<le> j))"
    using assms by arith
  finally show ?thesis .
qed

lemma quality_cmp:
  "((of_nat a :: rat) + 1 / 10 \<le> of_nat b + 2 / 10) = (a \<le> b)"
  "((of_nat a :: rat) \<le> of_nat b + 2 / 10) = (a \<le> b)"
  "((of_nat a :: rat) \<le> of_nat b + 1 / 10) = (a \<le> b)"
  "((of_nat a :: rat) + 2 / 10 \<le> of_nat b + 1 / 10) = (a < b)"
  "((of_nat a :: rat) + 2 / 10 \<le> of_nat b) = (a < b)"
  "((of_nat a :: rat) + 1 / 10 \<le> of_nat b) = (a < b)"
  using tenth_cmp[of 1 2 a b] tenth_cmp[of 0 2 a b] tenth_cmp[of 0 1 a b]
        tenth_cmp[of 2 1 a b] tenth_cmp[of 2 0 a b] tenth_cmp[of 1 0 a b]
  by auto

text \<open>The loop over the three rules, once it has come to \<open>em\<close> without a match.\<close>

lemma pick_emphasis:
  "pick_rule ((''em'', em_rule) # (''strong'', strong_rule) # (''u'', u_rule)
                # (''del'', del_rule) # others) source st None =
     (case (rule_capture em_rule source st, rule_capture strong_rule source st,
            rule_capture u_rule source st) of
        (None, None, None) \<Rightarrow> pick_rule ((''del'', del_rule) # others) source st None
      | (e, s, u) \<Rightarrow>
          (case e of
             Some c \<Rightarrow>
               if not_longer s c \<and> not_longer u c
               then Some (''em'', em_rule, c, em_quality c st (prevCaptureStr st))
               else
                 (case s of
                    Some d \<Rightarrow>
                      if not_longer u d \<and> shorter e d
                      then Some (''strong'', strong_rule, d, strong_quality d st (prevCaptureStr st))
                      else
                        (case u of
                           Some f \<Rightarrow> Some (''u'', u_rule, f, u_quality f st (prevCaptureStr st))
                         | None \<Rightarrow> None)
                  | None \<Rightarrow>
                      (case u of
                         Some f \<Rightarrow> Some (''u'', u_rule, f, u_quality f st (prevCaptureStr st))
                       | None \<Rightarrow> None))
           | None \<Rightarrow>
               (case s of
                  Some d \<Rightarrow>
                    if not_longer u d
                    then Some (''strong'', strong_rule, d, strong_quality d st (prevCaptureStr st))
                    else
                      (case u of
                         Some f \<Rightarrow> Some (''u'', u_rule, f, u_quality f st (prevCaptureStr st))
                       | None \<Rightarrow> None)
                | None \<Rightarrow>
                    (case u of
                       Some f \<Rightarrow> Some (''u'', u_rule, f, u_quality f st (prevCaptureStr st))
                     | None \<Rightarrow> None))))"
  by (auto simp: try_rule_def em_rule_def strong_rule_def u_rule_def del_rule_def mk_rule_def
      em_quality_def strong_quality_def u_quality_def num_le_def best_quality_def quality_cmp
      not_longer_def shorter_def Let_def
      split: option.split)

lemma pick_skip:
  "rule_capture (snd cur) source st = None \<Longrightarrow>
   pick_rule (cur # nxt # others) source st None = pick_rule (nxt # others) source st None"
  by (simp add: try_rule_def)

lemma pick_reaches_emphasis:
  assumes "\<forall>(t, r) \<in> set (take 21 defaultRules). rule_capture r source st = None"
  shows "pick_rule defaultRules source st None = pick_rule (drop 21 defaultRules) source st None"
  using assms by (simp add: defaultRules_def pick_skip del: pick_rule.simps)

text \<open>
  Claim C1. When the dispatcher comes to \<open>em\<close>, \<open>strong\<close> and \<open>u\<close> (no rule before them
  in the sorted list matches the source), it picks, among those of the three that match,
  the rule whose \<open>capture[0]\<close> is longest, and among captures of equal length \<open>em\<close>
  before \<open>strong\<close> and \<open>strong\<close> before \<open>u\<close>; the quality kept with the pick is the
  length plus 0.2, 0.1 and 0. When none of the three matches, the loop goes on with the
  rules after them.
\<close>

theorem emphasis_tie_break:
  assumes "\<forall>(t, r) \<in> set (take 21 defaultRules). rule_capture r source st = None"
  shows
    "(rule_capture em_rule source st = None \<and> rule_capture strong_rule source st = None
        \<and> rule_capture u_rule source st = None
        \<and> pick_rule defaultRules source st None = pick_rule (drop 24 defaultRules) source st None)
     \<or> (\<exists>c. pick_rule defaultRules source st None
               = Some (''em'', em_rule, c, Some (of_nat (length (cfull c)) + 2 / 10))
             \<and> rule_capture em_rule source st = Some c
             \<and> not_longer (rule_capture strong_rule source st) c
             \<and> not_longer (rule_capture u_rule source st) c)
     \<or> (\<exists>c. pick_rule defaultRules source st None
               = Some (''strong'', strong_rule, c, Some (of_nat (length (cfull c)) + 1 / 10))
             \<and> rule_capture strong_rule source st = Some c
             \<and> shorter (rule_capture em_rule source st) c
             \<and> not_longer (rule_capture u_rule source st) c)
     \<or> (\<exists>c. pick_rule defaultRules source st None
               = Some (''u'', u_rule, c, Some (of_nat (length (cfull c))))
             \<and> rule_capture u_rule source st = Some c
             \<and> shorter (rule_capture em_rule source st) c
             \<and> shorter (rule_capture strong_rule source st) c)"
proof -
  have a: "drop 21 (defaultRules :: (payload, 'a) rules)
        = (''em'', em_rule) # (''strong'', strong_rule) # (''u'', u_rule)
            # (''del'', del_rule) # drop 25 defaultRules"
    by (simp add: defaultRules_def)
  have b: "drop 24 (defaultRules :: (payload, 'a) rules)
        = (''del'', del_rule) # drop 25 defaultRules"
    by (simp add: defaultRules_def)
  have c: "pick_rule defaultRules source st None
        = pick_rule ((''em'', em_rule) # (''strong'', strong_rule) # (''u'', u_rule)
                       # (''del'', del_rule) # drop 25 defaultRules) source st None"
    using pick_reaches_emphasis[OF assms] a by simp
  show ?thesis
    unfolding c b pick_emphasis
    by (cases "rule_capture em_rule source st"; cases "rule_capture strong_rule source st";
        cases "rule_capture u_rule source st")
       (simp_all add: em_quality_def strong_quality_def u_quality_def not_longer_def shorter_def
          not_le not_less)
qed

lemma stars_before_emphasis:
  "\<forall>(t, r) \<in> set (take 21 defaultRules).
     rule_capture r ''***a***'' ((empty_state ())\<lparr>inline := True\<rparr>) = None"
  apply (simp add: defaultRules_def)
  apply (simp add: empty_state_def rule_capture_def prevCaptureStr_def blockRegex_def
      inlineRegex_def list_match_inline tableSeparator_match_def exec_def rule_defs pat_defs
      re_defs ch_defs cong: rmatch_cong)
  done

lemma stars_captures:
  "rule_capture em_rule ''***a***'' ((empty_state ())\<lparr>inline := True\<rparr>)
     = Some \<lparr>cindex = 0, cfull = ''***a***'', cgroups = [(2, ''**a**'')]\<rparr>"
  "rule_capture strong_rule ''***a***'' ((empty_state ())\<lparr>inline := True\<rparr>)
     = Some \<lparr>cindex = 0, cfull = ''***a***'', cgroups = [(Suc 0, ''*a*'')]\<rparr>"
  "rule_capture u_rule ''***a***'' ((empty_state ())\<lparr>inline := True\<rparr>) = None"
  by (simp_all add: empty_state_def rule_capture_def prevCaptureStr_def inlineRegex_def exec_def
      rule_defs pat_defs re_defs ch_defs cong: rmatch_cong)

text \<open>
  On the source \<open>***a***\<close> both \<open>em\<close> and \<open>strong\<close> capture all seven characters, and
  \<open>em\<close> is picked.
\<close>

theorem emphasis_tie_break_witness:
  "pick_rule defaultRules ''***a***'' ((empty_state ())\<lparr>inline := True\<rparr>) None
     = Some (''em'', em_rule, \<lparr>cindex = 0, cfull = ''***a***'', cgroups = [(2, ''**a**'')]\<rparr>,
             Some (7 + 2 / 10))
   \<and> rule_capture strong_rule ''***a***'' ((empty_state ())\<lparr>inline := True\<rparr>)
     = Some \<lparr>cindex = 0, cfull = ''***a***'', cgroups = [(1, ''*a*'')]\<rparr>"
  using emphasis_tie_break[OF stars_before_emphasis]
  by (simp add: stars_captures shorter_def not_longer_def)

section \<open>The types of the nodes\<close>

subsection \<open>One step of the parse loop\<close>

lemma set_insert_rule: "set (insert_rule a bs) = insert a (set bs)"
  by (induction bs) auto

lemma set_ruleList: "set (ruleList rules) \<subseteq> set rules"
proof -
  have "set (foldr insert_rule xs []) = set xs" for xs :: "('a, 'b) rules"
    by (induction xs) (simp_all add: set_insert_rule)
  then show ?thesis by (auto simp: ruleList_def)
qed

lemma try_rule_mem:
  "try_rule cur source st best = Some (t, r, c, q) \<Longrightarrow> (t, r) = cur \<or> best = Some (t, r, c, q)"
  by (auto simp: try_rule_def Let_def split: option.splits if_splits)

lemma pick_rule_mem:
  "pick_rule rs source st best = Some (t, r, c, q) \<Longrightarrow> (t, r) \<in> set rs \<or> best = Some (t, r, c, q)"
proof (induction rs source st best rule: pick_rule.induct)
  case (1 source st best)
  then show ?case by simp
next
  case (2 cur source st best)
  then show ?case using try_rule_mem by fastforce
next
  case (3 cur nxt others source st best)
  show ?case
  proof (cases "try_rule cur source st best")
    case None
    then show ?thesis using 3 by auto
  next
    case (Some b)
    show ?thesis
    proof (cases "order (snd nxt) = order (snd cur) \<and> quality (snd nxt) \<noteq> None")
      case True
      then have "pick_rule (nxt # others) source st (Some b) = Some (t, r, c, q)"
        using 3(3) Some by simp
      then have "(t, r) \<in> set (nxt # others) \<or> Some b = Some (t, r, c, q)"
        using 3(2)[OF Some True] by simp
      then show ?thesis using try_rule_mem[of cur source st best t r c q] Some by auto
    next
      case False
      then have "b = (t, r, c, q)" using 3(3) Some by auto
      then show ?thesis using try_rule_mem[of cur source st best t r c q] Some by auto
    qed
  qed
qed

lemma nestedParse_step:
  assumes "nestedParse (Suc fuel) rs source st = Some (Inr (nodes, st'))" and "source \<noteq> []"
  shows "\<exists>t r c q parsed st1 others.
           pick_rule rs source st None = Some (t, r, c, q) \<and> cindex c = 0
         \<and> parse r c (nestedParse fuel rs) st = Some (Inr (parsed, st1))
         \<and> nestedParse fuel rs (substring source (length (cfull c))) (st1\<lparr>prevCapture := Some c\<rparr>)
             = Some (Inr (others, st'))
         \<and> nodes = typed t parsed @ others"
proof -
  from assms have ne: "rs \<noteq> []" by (auto split: if_splits)
  from assms ne obtain t r c q where pick: "pick_rule rs source st None = Some (t, r, c, q)"
    by (cases "pick_rule rs source st None") auto
  from assms ne pick have ci: "cindex c = 0" by (auto split: if_splits)
  from assms ne pick ci obtain parsed st1 where
    p: "parse r c (nestedParse fuel rs) st = Some (Inr (parsed, st1))"
    by (cases "parse r c (nestedParse fuel rs) st") (auto split: sum.splits)
  from assms ne pick ci p obtain others st2 where
    m: "nestedParse fuel rs (substring source (length (cfull c))) (st1\<lparr>prevCapture := Some c\<rparr>)
          = Some (Inr (others, st2))"
    by (cases "nestedParse fuel rs (substring source (length (cfull c))) (st1\<lparr>prevCapture := Some c\<rparr>)")
       (auto split: sum.splits)
  from assms ne pick ci p m have "nodes = typed t parsed @ others" "st' = st2" by auto
  then show ?thesis using pick ci p m by blast
qed

lemma bind_result_ok:
  "bind_result r f = Some (Inr y) \<Longrightarrow> \<exists>v. r = Some (Inr v) \<and> f v = Some (Inr y)"
  by (auto simp: bind_result_def split: option.splits sum.splits)

lemmas parsefn_defs = heading_parse_def lheading_parse_def codeBlock_parse_def fence_parse_def
  blockQuote_parse_def list_parse_def def_parse_def parseTable_def ignoreCapture_def
  parseCaptureInline_def escape_parse_def tableSeparator_parse_def autolink_parse_def
  mailto_parse_def url_parse_def link_parse_def image_parse_def reflink_parse_def
  refimage_parse_def em_parse_def inlineCode_parse_def text_parse_def

subsection \<open>Rules that give typed nodes\<close>













section \<open>The fields of the client\<close>

lemma keeps_clientD: "keeps_client p \<Longrightarrow> p source st = Some (Inr (nodes, st')) \<Longrightarrow> client st' = client st"
  unfolding keeps_client_def by blast

lemma client_ruleD:
  assumes "client_rule (t, r)" and "keeps_client p" and "parse r c p s = Some (Inr (x, s'))"
  shows "client s' = client s"
proof -
  from assms(1) have "\<forall>c p s x s'. keeps_client p \<longrightarrow> parse r c p s = Some (Inr (x, s')) \<longrightarrow> client s' = client s"
    by (simp add: client_rule_def del: all_simps ex_simps)
  then have "keeps_client p \<longrightarrow> parse r c p s = Some (Inr (x, s')) \<longrightarrow> client s' = client s"
    by (elim allE)
  then show ?thesis using assms(2,3) by simp
qed

lemma nestedParse_client:
  assumes rules: "\<forall>nr \<in> set rs. client_rule nr"
  shows "keeps_client (nestedParse fuel rs)"
proof (induction fuel)
  case 0
  show ?case by (simp add: keeps_client_def)
next
  case (Suc fuel)
  show ?case
    unfolding keeps_client_def
  proof (intro allI impI)
    fix source st nodes st'
    assume run: "nestedParse (Suc fuel) rs source st = Some (Inr (nodes, st'))"
    show "client st' = client st"
    proof (cases "source = []")
      case True
      then show ?thesis using run by simp
    next
      case False
      from nestedParse_step[OF run False] obtain t r c q parsed st1 others where
        pick: "pick_rule rs source st None = Some (t, r, c, q)"
        and p: "parse r c (nestedParse fuel rs) st = Some (Inr (parsed, st1))"
        and m: "nestedParse fuel rs (substring source (length (cfull c))) (st1\<lparr>prevCapture := Some c\<rparr>)
              = Some (Inr (others, st'))"
        by blast
      have mem: "(t, r) \<in> set rs" using pick pick_rule_mem by fastforce
      then have cr: "client_rule (t, r)" using rules by simp
      have "client st1 = client st" using client_ruleD[OF cr Suc p] .
      moreover have "client st' = client (st1\<lparr>prevCapture := Some c\<rparr>)"
        using keeps_clientD[OF Suc m] .
      ultimately show ?thesis by simp
    qed
  qed
qed

lemma parseInline_client:
  "keeps_client p \<Longrightarrow> parseInline p content st = Some (Inr (nodes, st')) \<Longrightarrow> client st' = client st"
  by (auto simp: parseInline_def ok_def Let_def dest!: bind_result_ok dest: keeps_clientD)

lemma parseTableRow_client:
  "keeps_client p \<Longrightarrow> parseTableRow source p st trimEnd = Some (Inr (row, st')) \<Longrightarrow> client st' = client st"
  by (auto simp: parseTableRow_def ok_def Let_def dest!: bind_result_ok dest: keeps_clientD)

lemma parseTableRows_client:
  "keeps_client p \<Longrightarrow> parseTableRows rows p st trimEnd = Some (Inr (cells, st')) \<Longrightarrow> client st' = client st"
proof (induction rows arbitrary: st cells st')
  case Nil
  then show ?case by (simp add: ok_def)
next
  case (Cons row rows)
  from Cons.prems(2) obtain r st1 rs where
    a: "parseTableRow row p st trimEnd = Some (Inr (r, st1))"
    and b: "parseTableRows rows p st1 trimEnd = Some (Inr (rs, st'))"
    by (auto simp: ok_def dest!: bind_result_ok)
  show ?case using parseTableRow_client[OF Cons.prems(1) a] Cons.IH[OF Cons.prems(1) b] by simp
qed

lemma list_item_client:
  "keeps_client p \<Longrightarrow> list_item item isLast was p st = Some (Inr (x, st')) \<Longrightarrow> client st' = client st"
  by (auto simp: list_item_def ok_def Let_def dest!: bind_result_ok dest: keeps_clientD split: if_splits)

lemma list_items_client:
  "keeps_client p \<Longrightarrow> list_items items was p st = Some (Inr (x, st')) \<Longrightarrow> client st' = client st"
proof (induction items arbitrary: was st x st')
  case Nil
  then show ?case by (simp add: ok_def)
next
  case (Cons item items)
  from Cons.prems(2) obtain r par st1 rs where
    a: "list_item item (items = []) was p st = Some (Inr ((r, par), st1))"
    and b: "list_items items par p st1 = Some (Inr (rs, st'))"
    by (auto simp: ok_def dest!: bind_result_ok)
  show ?case using list_item_client[OF Cons.prems(1) a] Cons.IH[OF Cons.prems(1) b] by simp
qed

lemma parseRef_client: "parseRef c st n = Some (Inr (n', st')) \<Longrightarrow> client st' = client st"
  by (auto simp: parseRef_def ok_def Let_def split: option.splits if_splits)

lemma default_rule_client:
  "client_rule (''heading'', heading_rule)"
  "client_rule (''lheading'', lheading_rule)"
  "client_rule (''hr'', hr_rule)"
  "client_rule (''codeBlock'', codeBlock_rule)"
  "client_rule (''fence'', fence_rule)"
  "client_rule (''blockQuote'', blockQuote_rule)"
  "client_rule (''list'', list_rule)"
  "client_rule (''def'', def_rule)"
  "client_rule (''newline'', newline_rule)"
  "client_rule (''paragraph'', paragraph_rule)"
  "client_rule (''escape'', escape_rule)"
  "client_rule (''tableSeparator'', tableSeparator_rule)"
  "client_rule (''autolink'', autolink_rule)"
  "client_rule (''mailto'', mailto_rule)"
  "client_rule (''url'', url_rule)"
  "client_rule (''link'', link_rule)"
  "client_rule (''image'', image_rule)"
  "client_rule (''refimage'', refimage_rule)"
  "client_rule (''em'', em_rule)"
  "client_rule (''strong'', strong_rule)"
  "client_rule (''u'', u_rule)"
  "client_rule (''del'', del_rule)"
  "client_rule (''inlineCode'', inlineCode_rule)"
  "client_rule (''br'', br_rule)"
  "client_rule (''text'', text_rule)"
  by (auto simp: client_rule_def rule_defs parsefn_defs parseTableCells_def ok_def Let_def
      dest!: bind_result_ok
      dest: keeps_clientD parseInline_client parseTableRow_client parseTableRows_client
        list_items_client parseRef_client
      split: option.splits prod.splits)

lemma parseTable_client:
  assumes "keeps_client p" and "parseTable trimEnd c p st = Some (Inr (x, st'))"
  shows "client st' = client st"
proof -
  from assms(2) obtain header st1 cells st2 where
    a: "parseTableRow (group c 1) p (st\<lparr>inline := True\<rparr>) trimEnd = Some (Inr (header, st1))"
    and b: "parseTableRows (split_char NL (trim (group c 3))) p st1 trimEnd = Some (Inr (cells, st2))"
    and c: "st' = st2\<lparr>inline := False\<rparr>"
    by (auto simp: parseTable_def parseTableCells_def ok_def Let_def dest!: bind_result_ok)
  show ?thesis
    using parseTableRow_client[OF assms(1) a] parseTableRows_client[OF assms(1) b] c by simp
qed

lemma reflink_parse_client:
  assumes "keeps_client p" and "reflink_parse c p st = Some (Inr (x, st'))"
  shows "client st' = client st"
proof -
  from assms(2) obtain content st1 n where
    a: "p (group c 1) st = Some (Inr (content, st1))"
    and b: "parseRef c st1 (Node (Some ''link'') (Link content None None)) = Some (Inr (n, st'))"
    by (auto simp: reflink_parse_def ok_def dest!: bind_result_ok split: prod.splits)
  show ?thesis using keeps_clientD[OF assms(1) a] parseRef_client[OF b] by simp
qed

lemma table_rules_client:
  "client_rule (''nptable'', nptable_rule)"
  "client_rule (''table'', table_rule)"
  "client_rule (''reflink'', reflink_rule)"
  by (auto simp: client_rule_def rule_defs dest: parseTable_client reflink_parse_client)

lemma default_rules_client: "\<forall>nr \<in> set defaultRules. client_rule nr"
  by (simp add: defaultRules_def default_rule_client table_rules_client)

lemma outerParse_client:
  assumes "\<forall>nr \<in> set rs. client_rule nr"
  shows "keeps_client (outerParse fuel rs None)"
  unfolding keeps_client_def
proof (intro allI impI)
  fix source st nodes st'
  assume "outerParse fuel rs None source st = Some (Inr (nodes, st'))"
  then obtain src where
    "nestedParse fuel rs src (st\<lparr>prevCapture := None\<rparr>) = Some (Inr (nodes, st'))"
    by (simp add: outerParse_def populateInitialState_def Let_def)
  from keeps_clientD[OF nestedParse_client[OF assms] this] show "client st' = client st" by simp
qed

lemma defaultRawParse_client: "keeps_client (defaultRawParse fuel)"
proof -
  have "\<forall>nr \<in> set (ruleList defaultRules). client_rule nr"
    using default_rules_client set_ruleList by blast
  from outerParse_client[OF this] have k: "keeps_client (parserFor defaultRules None fuel)"
    by (simp add: parserFor_def)
  show ?thesis
    unfolding keeps_client_def
    by (auto simp: defaultRawParse_def ok_def dest!: bind_result_ok dest: keeps_clientD[OF k])
qed

lemma outerParse_after_template:
  assumes "\<forall>nr \<in> set rs. client_rule nr"
    and "outerParse fuel rs defaultState source st = Some (Inr (nodes, st'))"
  shows "client st' = client (populateInitialState st defaultState)"
proof -
  from assms(2) obtain src where
    "nestedParse fuel rs src ((populateInitialState st defaultState)\<lparr>prevCapture := None\<rparr>)
       = Some (Inr (nodes, st'))"
    by (simp add: outerParse_def Let_def)
  from keeps_clientD[OF nestedParse_client[OF assms(1)] this] show ?thesis by simp
qed

lemma parserFor_after_template:
  assumes "parserFor defaultRules defaultState fuel source st = Some (Inr (nodes, st'))"
  shows "client st' = client (populateInitialState st defaultState)"
proof -
  have "\<forall>nr \<in> set (ruleList defaultRules). client_rule nr"
    using default_rules_client set_ruleList by blast
  from outerParse_after_template[OF this] assms show ?thesis by (simp add: parserFor_def)
qed

lemma template_parse_empty_source:
  "parserFor defaultRules (Some mine_x) (Suc (Suc fuel)) [] (empty_state ''y'')
     = Some (Inr ([Node (Some ''newline'') Empty],
           (empty_state ''x'')\<lparr>prevCapture := Some \<lparr>cindex = 0, cfull = [NL, NL], cgroups = []\<rparr>\<rparr>))"
  by (simp add: parse_defs ruleList_defaultRules empty_state_def preprocess_blank pick_blank
      defaultRules_nonempty newline_rule_def mk_rule_def ignoreCapture_def mine_x_def)

text \<open>
  Claim C9 says that every parse with the default rules returns the fields of the client
  as they were given. A parse function built by \<open>parserFor\<close> with a default state begins
  with \<open>populateInitialState\<close>, which writes every property of the default state into
  the given state: with the default state \<open>{mine: 'x'}\<close> and the given state
  \<open>{mine: 'y'}\<close> the parse of the empty source returns the state with \<open>mine\<close> set to \<open>x\<close>.
\<close>

theorem template_overwrites_counterexample:
  "parserFor defaultRules (Some mine_x) (Suc (Suc 0)) [] (empty_state ''y'')
     = Some (Inr ([Node (Some ''newline'') Empty],
           (empty_state ''x'')\<lparr>prevCapture := Some \<lparr>cindex = 0, cfull = [NL, NL], cgroups = []\<rparr>\<rparr>))
   \<and> client ((empty_state ''x'' :: (payload, string) state)
               \<lparr>prevCapture := Some \<lparr>cindex = 0, cfull = [NL, NL], cgroups = []\<rparr>\<rparr>)
       \<noteq> client (empty_state ''y'' :: (payload, string) state)"
  by (simp add: template_parse_empty_source) (simp add: empty_state_def)

text \<open>
  Claim C9, amended: the loop of the dispatcher and every default rule leave the fields
  of the client as they are, so a parse function built by \<open>parserFor\<close> from the default
  rules, with any default state, returns them as \<open>populateInitialState\<close> set them when
  the parse began. With no default state, and so for the four default entry points
  (which are built with none), they are returned as they were given. (The field \<open>key\<close>
  is read and written by the output functions only; for a parse it is a field of the
  client like any other.)
\<close>

theorem client_fields_after_template:
  "(\<forall>source st nodes st'.
      parserFor defaultRules defaultState fuel source st = Some (Inr (nodes, st')) \<longrightarrow>
      client st' = client (populateInitialState st defaultState))
   \<and> keeps_client (parserFor defaultRules None fuel)
   \<and> keeps_client (defaultRawParse fuel)
   \<and> keeps_client (defaultBlockParse fuel)
   \<and> keeps_client (defaultInlineParse fuel)
   \<and> keeps_client (defaultImplicitParse fuel)"
proof (intro conjI allI impI)
  fix source st nodes st'
  assume "parserFor defaultRules defaultState fuel source st = Some (Inr (nodes, st'))"
  then show "client st' = client (populateInitialState st defaultState)"
    by (rule parserFor_after_template)
next
  show "keeps_client (parserFor defaultRules None fuel)"
    unfolding keeps_client_def
    by (auto dest: parserFor_after_template simp: populateInitialState_def)
  show "keeps_client (defaultRawParse fuel)" by (rule defaultRawParse_client)
  show "keeps_client (defaultBlockParse fuel)"
    unfolding keeps_client_def
    by (auto simp: defaultBlockParse_def dest: keeps_clientD[OF defaultRawParse_client])
  show "keeps_client (defaultInlineParse fuel)"
    unfolding keeps_client_def
    by (auto simp: defaultInlineParse_def dest: keeps_clientD[OF defaultRawParse_client])
  show "keeps_client (defaultImplicitParse fuel)"
    unfolding keeps_client_def
    by (auto simp: defaultImplicitParse_def Let_def dest: keeps_clientD[OF defaultRawParse_client])
qed

theorem client_fields_after_template_witness:
  "parserFor defaultRules (Some mine_x) (Suc (Suc 0)) [] (empty_state ''y'')
     = Some (Inr ([Node (Some ''newline'') Empty],
           (empty_state ''x'')\<lparr>prevCapture := Some \<lparr>cindex = 0, cfull = [NL, NL], cgroups = []\<rparr>\<rparr>))
   \<and> client ((empty_state ''x'' :: (payload, string) state)
               \<lparr>prevCapture := Some \<lparr>cindex = 0, cfull = [NL, NL], cgroups = []\<rparr>\<rparr>)
       = client (populateInitialState (empty_state ''y'' :: (payload, string) state) (Some mine_x))
   \<and> defaultRawParse (Suc (Suc (Suc (Suc 0)))) ''\<newline>a\<newline>\<newline>'' ((empty_state ''mine'')\<lparr>inline := False\<rparr>)
     = Some (Inr ([Node (Some ''newline'') Empty,
                   Node (Some ''paragraph'') (Content [Node (Some ''text'') (Text ''a'')])],
           (empty_state ''mine'')\<lparr>prevCapture :=
              Some \<lparr>cindex = 0, cfull = ''a\<newline>\<newline>\<newline>\<newline>'', cgroups = [(Suc 0, ''a'')]\<rparr>\<rparr>))
   \<and> client ((empty_state ''mine'' :: (payload, string) state)\<lparr>prevCapture :=
              Some \<lparr>cindex = 0, cfull = ''a\<newline>\<newline>\<newline>\<newline>'', cgroups = [(Suc 0, ''a'')]\<rparr>\<rparr>) = ''mine''"
proof -
  note t = client_fields_after_template[of "Some mine_x" "Suc (Suc 0)"]
  note u = client_fields_after_template[of None "Suc (Suc (Suc (Suc 0)))"]
  have a: "client ((empty_state ''x'' :: (payload, string) state)
               \<lparr>prevCapture := Some \<lparr>cindex = 0, cfull = [NL, NL], cgroups = []\<rparr>\<rparr>)
       = client (populateInitialState (empty_state ''y'' :: (payload, string) state) (Some mine_x))"
    using t template_parse_empty_source[of 0] by blast
  have b: "client ((empty_state ''mine'' :: (payload, string) state)\<lparr>prevCapture :=
              Some \<lparr>cindex = 0, cfull = ''a\<newline>\<newline>\<newline>\<newline>'', cgroups = [(Suc 0, ''a'')]\<rparr>\<rparr>)
        = client ((empty_state ''mine'' :: (payload, string) state)\<lparr>inline := False\<rparr>)"
    using u block_parse_newline_a[of 0 "''mine''"] unfolding keeps_client_def by blast
  show ?thesis
    using a b template_parse_empty_source[of 0] block_parse_newline_a[of 0 "''mine''"]
    by (simp add: empty_state_def)
qed

section \<open>The text that the loop consumes\<close>

subsection \<open>Where a match stops\<close>





lemma advances_clear [simp]: "advances (clear_groups gs s) s1 = advances s s1"
  by (simp add: advances_def clear_groups_def)

lemma at_line_end_clear [simp]: "at_line_end (clear_groups gs s) = at_line_end s"
  by (simp add: at_line_end_def clear_groups_def)


lemma at_line_end_caps [simp]: "at_line_end (s\<lparr>caps := cs\<rparr>) = at_line_end s"
  by (simp add: at_line_end_def)






subsection \<open>Runs of spaces\<close>





subsection \<open>The look behind of the rule for lists\<close>







subsection \<open>The rules that match every block\<close>







subsection \<open>The rule that the loop picks\<close>









subsection \<open>The scope after a rule\<close>

lemma keeps_inlineD:
  "keeps_inline p \<Longrightarrow> p source st = Some (Inr (nodes, st')) \<Longrightarrow> inline st' = inline st"
  unfolding keeps_inline_def by blast




lemma parseTableRow_inline:
  "keeps_inline p \<Longrightarrow> parseTableRow source p st trimEnd = Some (Inr (row, st')) \<Longrightarrow>
   inline st' = inline st"
  by (auto simp: parseTableRow_def ok_def Let_def dest!: bind_result_ok dest: keeps_inlineD)

lemma parseTableRows_inline:
  "keeps_inline p \<Longrightarrow> parseTableRows rows p st trimEnd = Some (Inr (cells, st')) \<Longrightarrow>
   inline st' = inline st"
proof (induction rows arbitrary: st cells st')
  case Nil
  then show ?case by (simp add: ok_def)
next
  case (Cons row rows)
  from Cons.prems(2) obtain r st1 rs where
    a: "parseTableRow row p st trimEnd = Some (Inr (r, st1))"
    and b: "parseTableRows rows p st1 trimEnd = Some (Inr (rs, st'))"
    by (auto simp: ok_def dest!: bind_result_ok)
  show ?case using parseTableRow_inline[OF Cons.prems(1) a] Cons.IH[OF Cons.prems(1) b] by simp
qed










subsection \<open>The preprocessed source\<close>







subsection \<open>Carriage returns\<close>










subsection \<open>The captures of a parse in block scope\<close>

text \<open>The loop that returns the captures returns when, and only when, \<open>nestedParse\<close> does.\<close>

lemma loopCaptures_returns:
  "(\<exists>captures. loopCaptures fuel rs source st = Some (Inr captures))
     = (\<exists>nodes st'. nestedParse fuel rs source st = Some (Inr (nodes, st')))"
proof (induction fuel arbitrary: source st)
  case 0
  show ?case by simp
next
  case (Suc fuel)
  show ?case
  proof (cases "source = [] \<or> rs = []")
    case True
    then show ?thesis by auto
  next
    case False
    show ?thesis
    proof (cases "pick_rule rs source st None")
      case None
      then show ?thesis using False by simp
    next
      case (Some b)
      note pick = this
      obtain t r c q where b: "b = (t, r, c, q)" by (cases b) auto
      show ?thesis
      proof (cases "parse r c (nestedParse fuel rs) st")
        case None
        then show ?thesis using False pick b by simp
      next
        case (Some res)
        note p = this
        show ?thesis
        proof (cases res)
          case (Inl e)
          then show ?thesis using False pick b p by simp
        next
          case (Inr x)
          obtain parsed st1 where x: "x = (parsed, st1)" by (cases x) auto
          have "(\<exists>cs. loopCaptures fuel rs (substring source (length (cfull c)))
                        (st1\<lparr>prevCapture := Some c\<rparr>) = Some (Inr cs))
                = (\<exists>nodes st'. nestedParse fuel rs (substring source (length (cfull c)))
                        (st1\<lparr>prevCapture := Some c\<rparr>) = Some (Inr (nodes, st')))"
            by (rule Suc)
          then show ?thesis
            using False pick b p Inr x
            by (auto split: option.splits sum.splits)
        qed
      qed
    qed
  qed
qed













end
